theory Spec2Isabelle
  imports Complex_Main
begin

section \<open>Vectors and matrices of the host's mathutils library\<close>

text \<open>
  The add-on computes with \<^verbatim>\<open>mathutils.Vector\<close> and \<^verbatim>\<open>mathutils.Matrix\<close>.
  Their arithmetic is idealised here over the reals: a 3D vector is a triple, a 3x3
  matrix is a triple of rows, a 4x4 matrix is four rows of four entries.
\<close>

type_synonym Vector = "real \<times> real \<times> real"
type_synonym Matrix3 = "Vector \<times> Vector \<times> Vector"
type_synonym Vector4 = "real \<times> real \<times> real \<times> real"
type_synonym Matrix4 = "Vector4 \<times> Vector4 \<times> Vector4 \<times> Vector4"

fun vec_z :: "Vector \<Rightarrow> real" where
  "vec_z (x, y, z) = z"

fun vec_add :: "Vector \<Rightarrow> Vector \<Rightarrow> Vector" where
  "vec_add (a1, a2, a3) (b1, b2, b3) = (a1 + b1, a2 + b2, a3 + b3)"

fun vec_sub :: "Vector \<Rightarrow> Vector \<Rightarrow> Vector" where
  "vec_sub (a1, a2, a3) (b1, b2, b3) = (a1 - b1, a2 - b2, a3 - b3)"

fun vec_scale :: "Vector \<Rightarrow> real \<Rightarrow> Vector" where
  "vec_scale (a1, a2, a3) k = (a1 * k, a2 * k, a3 * k)"

fun vec_neg :: "Vector \<Rightarrow> Vector" where
  "vec_neg (a1, a2, a3) = (- a1, - a2, - a3)"

fun dot :: "Vector \<Rightarrow> Vector \<Rightarrow> real" where
  "dot (a1, a2, a3) (b1, b2, b3) = a1 * b1 + a2 * b2 + a3 * b3"

fun cross :: "Vector \<Rightarrow> Vector \<Rightarrow> Vector" where
  "cross (a1, a2, a3) (b1, b2, b3) =
     (a2 * b3 - a3 * b2, a3 * b1 - a1 * b3, a1 * b2 - a2 * b1)"

definition vec_length :: "Vector \<Rightarrow> real" where
  "vec_length v = sqrt (dot v v)"

text \<open>
  \<^verbatim>\<open>Vector.normalized()\<close>: the vector scaled by the inverse of its length; the
  library leaves a vector of length zero as the zero vector.
\<close>

definition normalized :: "Vector \<Rightarrow> Vector" where
  "normalized v =
     (let l = vec_length v in if l = 0 then (0, 0, 0) else vec_scale v (1 / l))"

fun to_3x3 :: "Matrix4 \<Rightarrow> Matrix3" where
  "to_3x3 ((a00, a01, a02, a03), (a10, a11, a12, a13), (a20, a21, a22, a23), r3) =
     ((a00, a01, a02), (a10, a11, a12), (a20, a21, a22))"

fun translation :: "Matrix4 \<Rightarrow> Vector" where
  "translation ((a00, a01, a02, a03), (a10, a11, a12, a13), (a20, a21, a22, a23), r3) =
     (a03, a13, a23)"

text \<open>The product \<^verbatim>\<open>matrix @ vector\<close>.\<close>

fun mat_vec :: "Matrix3 \<Rightarrow> Vector \<Rightarrow> Vector" where
  "mat_vec (r0, r1, r2) v = (dot r0 v, dot r1 v, dot r2 v)"

fun transposed :: "Matrix3 \<Rightarrow> Matrix3" where
  "transposed ((a00, a01, a02), (a10, a11, a12), (a20, a21, a22)) =
     ((a00, a10, a20), (a01, a11, a21), (a02, a12, a22))"

fun mat_mul :: "Matrix3 \<Rightarrow> Matrix3 \<Rightarrow> Matrix3" where
  "mat_mul (r0, r1, r2) m =
     (mat_vec (transposed m) r0, mat_vec (transposed m) r1, mat_vec (transposed m) r2)"

definition identity3 :: Matrix3 where
  "identity3 = ((1, 0, 0), (0, 1, 0), (0, 0, 1))"

text \<open>A matrix is orthonormal when its columns are pairwise orthogonal unit vectors.\<close>

definition orthonormal :: "Matrix3 \<Rightarrow> bool" where
  "orthonormal m \<longleftrightarrow> mat_mul (transposed m) m = identity3"

text \<open>
  The value assigned to \<^verbatim>\<open>rotation_euler\<close>: the literal tuple of the fallback
  branches, or the Euler angles \<^verbatim>\<open>to_euler()\<close> of a matrix. The conversion to
  angles is the library's; it is kept symbolic, as the matrix it is applied to.
\<close>

datatype rotation =
    Tuple3 real real real
  | To_euler Matrix3
  | To_euler4 Matrix4

section \<open>The part of the host's context the add-on reads\<close>

record camera_object =
  matrix_world :: Matrix4

record area =
  area_type :: string
  regions :: "string list"
  view_matrix :: Matrix4

record bpy_context =
  scene_camera :: "camera_object option"
  cursor_location :: Vector
  screen_areas :: "area list"
  collection :: string

section \<open>Exceptions\<close>

text \<open>
  A raised Python exception, by the handler that catches it in this add-on:
  \<^verbatim>\<open>except ImportError\<close> catches an \<open>ImportError\<close> (or a subclass),
  \<^verbatim>\<open>except Exception\<close> catches every other instance of \<^verbatim>\<open>Exception\<close>, and an
  instance of \<^verbatim>\<open>BaseException\<close> outside \<^verbatim>\<open>Exception\<close> (\<^verbatim>\<open>KeyboardInterrupt\<close>,
  \<^verbatim>\<open>SystemExit\<close>) is caught by neither. The string is \<^verbatim>\<open>str(e)\<close>.
\<close>

datatype py_exception =
    ImportError string
  | Other_Exception string
  | Non_Exception string

section \<open>Inverting a 4x4 matrix\<close>

text \<open>
  \<^verbatim>\<open>Matrix.inverted()\<close> of the library divides the adjugate by the determinant and
  raises \<^verbatim>\<open>ValueError\<close> when the determinant is zero.
\<close>

fun row_list :: "Vector4 \<Rightarrow> real list" where
  "row_list (a, b, c, d) = [a, b, c, d]"

fun rows_of :: "Matrix4 \<Rightarrow> real list list" where
  "rows_of (r0, r1, r2, r3) = [row_list r0, row_list r1, row_list r2, row_list r3]"

definition list_row :: "real list \<Rightarrow> Vector4" where
  "list_row r = (r ! 0, r ! 1, r ! 2, r ! 3)"

definition of_rows :: "real list list \<Rightarrow> Matrix4" where
  "of_rows m = (list_row (m ! 0), list_row (m ! 1), list_row (m ! 2), list_row (m ! 3))"

definition removed :: "nat \<Rightarrow> 'a list \<Rightarrow> 'a list" where
  "removed j xs = take j xs @ drop (Suc j) xs"

fun determinant :: "real list list \<Rightarrow> real" where
  "determinant [] = 1"
| "determinant (r # rs) =
     sum_list (map (\<lambda>j. (- 1) ^ j * (r ! j) * determinant (map (removed j) rs))
                   [0..<length r])"

definition cofactor :: "real list list \<Rightarrow> nat \<Rightarrow> nat \<Rightarrow> real" where
  "cofactor m i j = (- 1) ^ (i + j) * determinant (map (removed j) (removed i m))"

definition adjugate :: "real list list \<Rightarrow> real list list" where
  "adjugate m = map (\<lambda>i. map (\<lambda>j. cofactor m j i) [0..<length m]) [0..<length m]"

definition inverted :: "Matrix4 \<Rightarrow> py_exception + Matrix4" where
  "inverted m =
     (let d = determinant (rows_of m)
      in if d = 0 then Inl (Other_Exception ''Matrix.invert(ed): matrix does not have an inverse'')
         else Inr (of_rows (map (map (\<lambda>x. x / d)) (adjugate (rows_of m)))))"

section \<open>Facing the camera\<close>

text \<open>
  The library computes in single precision and rounds; every finite float is a real
  number. \<open>get_camera_facing_position\<close> therefore takes the library's rounding
  operations as a parameter: the matrix-vector product \<^verbatim>\<open>@\<close>, \<^verbatim>\<open>normalized()\<close>, the
  sum and the difference of vectors, the product of a vector and a number, and
  \<^verbatim>\<open>cross\<close>. What is proved for every such record holds for the library's own
  arithmetic. Negation, transposition and the comparison with 0.999 do not round.
  \<open>exact_arithmetic\<close> is the arithmetic of the reals, without rounding.
\<close>

record mathutils =
  mat_mul_vec :: "Matrix3 \<Rightarrow> Vector \<Rightarrow> Vector"
  vec_normalized :: "Vector \<Rightarrow> Vector"
  vec_plus :: "Vector \<Rightarrow> Vector \<Rightarrow> Vector"
  vec_minus :: "Vector \<Rightarrow> Vector \<Rightarrow> Vector"
  vec_times :: "Vector \<Rightarrow> real \<Rightarrow> Vector"
  vec_cross :: "Vector \<Rightarrow> Vector \<Rightarrow> Vector"

definition exact_arithmetic :: mathutils where
  "exact_arithmetic =
     \<lparr>mat_mul_vec = mat_vec, vec_normalized = normalized, vec_plus = vec_add,
      vec_minus = vec_sub, vec_times = vec_scale, vec_cross = cross\<rparr>"

definition get_camera_facing_position ::
  "mathutils \<Rightarrow> bpy_context \<Rightarrow> real \<Rightarrow> Vector \<times> rotation" where
  "get_camera_facing_position mu ctx distance =
     (case scene_camera ctx of
        None \<Rightarrow> ((0, 0, 0), Tuple3 0 0 0)
      | Some camera \<Rightarrow>
          (let camera_matrix = matrix_world camera;
               forward_vector = mat_mul_vec mu (to_3x3 camera_matrix) (0, 0, - 1);
               forward = vec_normalized mu forward_vector;
               camera_location = translation camera_matrix;
               position = vec_plus mu camera_location (vec_times mu forward distance);
               direction = vec_normalized mu (vec_minus mu camera_location position);
               (right, up) =
                 (if \<bar>vec_z direction\<bar> < 0.999 then
                    (let up0 = (0, 0, 1);
                         right = vec_normalized mu (vec_cross mu direction up0)
                     in (right, vec_normalized mu (vec_cross mu right direction)))
                  else ((1, 0, 0), (0, 1, 0)));
               rotation_matrix = transposed (right, up, vec_neg direction)
           in (position, To_euler rotation_matrix)))"

section \<open>Facing the viewport\<close>

text \<open>
  The body run for the first \<^verbatim>\<open>WINDOW\<close> region of a \<^verbatim>\<open>VIEW_3D\<close> area. The three
  calls of \<^verbatim>\<open>view_matrix.inverted()\<close> give the same value; the first one raises when
  there is no inverse.
\<close>

definition viewport_result :: "area \<Rightarrow> real \<Rightarrow> py_exception + (Vector \<times> rotation)" where
  "viewport_result a distance =
     (case inverted (view_matrix a) of
        Inl e \<Rightarrow> Inl e
      | Inr view_inverted \<Rightarrow>
          (let view_location = translation view_inverted;
               view_rotation = To_euler4 view_inverted;
               forward = normalized (mat_vec (to_3x3 view_inverted) (0, 0, - 1));
               position = vec_add view_location (vec_scale forward distance)
           in Inr (position, view_rotation)))"

text \<open>The inner loop over the regions of an area: \<open>None\<close> when it ends without returning.\<close>

fun regions_loop :: "string list \<Rightarrow> area \<Rightarrow> real \<Rightarrow> (py_exception + (Vector \<times> rotation)) option" where
  "regions_loop [] a distance = None"
| "regions_loop (region_type # rest) a distance =
     (if region_type = ''WINDOW'' then Some (viewport_result a distance)
      else regions_loop rest a distance)"

fun areas_loop :: "area list \<Rightarrow> real \<Rightarrow> (py_exception + (Vector \<times> rotation)) option" where
  "areas_loop [] distance = None"
| "areas_loop (a # rest) distance =
     (if area_type a = ''VIEW_3D'' then
        (case regions_loop (regions a) a distance of
           Some r \<Rightarrow> Some r
         | None \<Rightarrow> areas_loop rest distance)
      else areas_loop rest distance)"

definition get_viewport_facing_position ::
  "bpy_context \<Rightarrow> real \<Rightarrow> py_exception + (Vector \<times> rotation)" where
  "get_viewport_facing_position ctx distance =
     (case areas_loop (screen_areas ctx) distance of
        Some r \<Rightarrow> r
      | None \<Rightarrow> Inr ((0, 0, 0), Tuple3 0 0 0))"

section \<open>The host's data and the calls the operators make\<close>

text \<open>
  A clipboard image of the imaging library, with the format it came in
  (\<^verbatim>\<open>Image.format\<close>), and what \<^verbatim>\<open>ImageGrab.grabclipboard()\<close> returns: an image, a
  list of file names, or \<^verbatim>\<open>None\<close>.
\<close>

record pil_image =
  image_format :: "string option"
  pixels :: "nat list"

datatype clipboard =
    Clip_image pil_image
  | Clip_files "string list"
  | Clip_none

text \<open>
  An image datablock of \<^verbatim>\<open>bpy.data.images\<close> and an object of
  \<^verbatim>\<open>bpy.data.objects\<close>; an object refers to its image by the index of the datablock.
\<close>

record image_block =
  image_name :: string
  filepath :: string

record bpy_object =
  object_name :: string
  empty_display_type :: string
  data :: "nat option"
  location :: Vector
  rotation_euler :: rotation
  scale :: Vector
  selected :: bool

datatype attribute =
    Attr_empty_display_type
  | Attr_data
  | Attr_location
  | Attr_rotation_euler
  | Attr_scale

text \<open>
  The state the operators work on: the files on disk (a path holds the image saved
  there), the host's datablocks, the objects linked into each collection, the view
  layer's active object, the reports shown to the user, and a log of the attribute
  assignments made to objects, in order.
\<close>

record world =
  files :: "string \<rightharpoonup> pil_image"
  images :: "image_block list"
  objects :: "bpy_object list"
  collection_objects :: "string \<Rightarrow> nat list"
  active_object :: "nat option"
  reports :: "(string \<times> string) list"
  attribute_writes :: "(nat \<times> attribute) list"

text \<open>
  What the calls into the imaging library, the operating system and the host do in one
  run, as far as the add-on cannot decide it: each may raise, the clipboard has a
  content, and the temporary directory has a name.
\<close>

record env =
  import_PIL :: "py_exception option"
  grabclipboard :: "py_exception + clipboard"
  gettempdir :: string
  image_save :: "py_exception option"
  images_load :: "py_exception option"
  objects_link :: "py_exception option"
  set_active :: "py_exception option"
  select_set :: "py_exception option"
  ensurepip_bootstrap :: "py_exception option"
  pip_install :: "py_exception option"

datatype outcome =
    Returned "string set"
  | Raised py_exception

text \<open>\<^verbatim>\<open>os.path.join\<close> of two components, as \<^verbatim>\<open>posixpath\<close> defines it.\<close>

definition path_join :: "string \<Rightarrow> string \<Rightarrow> string" where
  "path_join a b =
     (if b \<noteq> [] \<and> hd b = CHR ''/'' then b
      else if a = [] \<or> last a = CHR ''/'' then a @ b
      else a @ ''/'' @ b)"

definition basename :: "string \<Rightarrow> string" where
  "basename p = rev (takeWhile (\<lambda>c. c \<noteq> CHR ''/'') (rev p))"

text \<open>\<^verbatim>\<open>self.report({level}, message)\<close>.\<close>

definition report :: "string \<Rightarrow> string \<Rightarrow> world \<Rightarrow> world" where
  "report level message w = w\<lparr>reports := reports w @ [(level, message)]\<rparr>"

text \<open>
  \<^verbatim>\<open>image.save(temp_path)\<close>: the file at the path holds the image, unless the call
  raises.
\<close>

definition write_file :: "string \<Rightarrow> pil_image \<Rightarrow> world \<Rightarrow> world" where
  "write_file path pil w = w\<lparr>files := (files w)(path \<mapsto> pil)\<rparr>"

definition save :: "pil_image \<Rightarrow> string \<Rightarrow> env \<Rightarrow> world \<Rightarrow> py_exception + world" where
  "save pil path e w =
     (case image_save e of
        Some x \<Rightarrow> Inl x
      | None \<Rightarrow> Inr (write_file path pil w))"

text \<open>
  The host keeps the names of its datablocks distinct: a requested name that is taken
  gets a numeric suffix \<open>.001\<close>, \<open>.002\<close>, ... in place of any such suffix it
  has, with the first number that is free (numbers up to 999; the host's limit on the
  length of a name is left out).
\<close>

definition pad3 :: "nat \<Rightarrow> string" where
  "pad3 k =
     [''0123456789'' ! (k div 100 mod 10), ''0123456789'' ! (k div 10 mod 10),
      ''0123456789'' ! (k mod 10)]"

definition strip_number :: "string \<Rightarrow> string" where
  "strip_number name =
     (let suffix = takeWhile (\<lambda>c. c \<noteq> CHR ''.'') (rev name)
      in if CHR ''.'' \<in> set name \<and> suffix \<noteq> [] \<and> list_all (\<lambda>c. c \<in> set ''0123456789'') suffix
         then rev (drop (Suc (length suffix)) (rev name))
         else name)"

definition unique_name :: "string list \<Rightarrow> string \<Rightarrow> string" where
  "unique_name used name =
     (if name \<notin> set used then name
      else case find (\<lambda>c. c \<notin> set used)
                  (map (\<lambda>k. strip_number name @ ''.'' @ pad3 k) [1..<length used + 2]) of
             Some c \<Rightarrow> c
           | None \<Rightarrow> name)"

text \<open>
  \<^verbatim>\<open>bpy.data.images.load(path)\<close>: a new datablock named after the file, or an
  exception; a missing file raises. The datablock keeps the path; the host reads the
  pixels from the file at that path.
\<close>

definition add_image :: "string \<Rightarrow> world \<Rightarrow> world" where
  "add_image path w =
     w\<lparr>images := images w @
          [\<lparr>image_name = unique_name (map image_name (images w)) (basename path),
            filepath = path\<rparr>]\<rparr>"

definition load :: "string \<Rightarrow> env \<Rightarrow> world \<Rightarrow> py_exception + (nat \<times> world)" where
  "load path e w =
     (case images_load e of
        Some x \<Rightarrow> Inl x
      | None \<Rightarrow>
          (case files w path of
             None \<Rightarrow> Inl (Other_Exception (''Error: Cannot read '' @ path))
           | Some content \<Rightarrow> Inr (length (images w), add_image path w)))"

text \<open>\<^verbatim>\<open>bpy.data.objects.new(name=name, object_data=None)\<close>: an empty with the host's defaults.\<close>

definition add_object :: "string \<Rightarrow> world \<Rightarrow> world" where
  "add_object name w =
     w\<lparr>objects := objects w @
          [\<lparr>object_name = unique_name (map object_name (objects w)) name,
            empty_display_type = ''PLAIN_AXES'', data = None,
            location = (0, 0, 0), rotation_euler = Tuple3 0 0 0, scale = (1, 1, 1),
            selected = False\<rparr>]\<rparr>"

definition objects_new :: "string \<Rightarrow> world \<Rightarrow> nat \<times> world" where
  "objects_new name w = (length (objects w), add_object name w)"

text \<open>An assignment to an attribute of an object: the object changes and the log grows.\<close>

definition assign :: "nat \<Rightarrow> attribute \<Rightarrow> (bpy_object \<Rightarrow> bpy_object) \<Rightarrow> world \<Rightarrow> world" where
  "assign ref attr f w =
     w\<lparr>objects := (objects w)[ref := f (objects w ! ref)],
       attribute_writes := attribute_writes w @ [(ref, attr)]\<rparr>"

definition set_empty_display_type :: "nat \<Rightarrow> string \<Rightarrow> world \<Rightarrow> world" where
  "set_empty_display_type ref v = assign ref Attr_empty_display_type (\<lambda>ob. ob\<lparr>empty_display_type := v\<rparr>)"

definition set_data :: "nat \<Rightarrow> nat \<Rightarrow> world \<Rightarrow> world" where
  "set_data ref img = assign ref Attr_data (\<lambda>ob. ob\<lparr>data := Some img\<rparr>)"

definition set_location :: "nat \<Rightarrow> Vector \<Rightarrow> world \<Rightarrow> world" where
  "set_location ref v = assign ref Attr_location (\<lambda>ob. ob\<lparr>location := v\<rparr>)"

definition set_rotation_euler :: "nat \<Rightarrow> rotation \<Rightarrow> world \<Rightarrow> world" where
  "set_rotation_euler ref v = assign ref Attr_rotation_euler (\<lambda>ob. ob\<lparr>rotation_euler := v\<rparr>)"

definition set_scale :: "nat \<Rightarrow> Vector \<Rightarrow> world \<Rightarrow> world" where
  "set_scale ref v = assign ref Attr_scale (\<lambda>ob. ob\<lparr>scale := v\<rparr>)"

text \<open>
  \<^verbatim>\<open>context.collection.objects.link(ref)\<close>,
  \<^verbatim>\<open>bpy.context.view_layer.objects.active = ref\<close> and \<^verbatim>\<open>ref.select_set(True)\<close>;
  a call that raises changes nothing.
\<close>

definition link_object :: "string \<Rightarrow> nat \<Rightarrow> world \<Rightarrow> world" where
  "link_object c ref w =
     w\<lparr>collection_objects := (collection_objects w)(c := collection_objects w c @ [ref])\<rparr>"

definition link :: "string \<Rightarrow> nat \<Rightarrow> env \<Rightarrow> world \<Rightarrow> py_exception + world" where
  "link c ref e w =
     (case objects_link e of
        Some x \<Rightarrow> Inl x
      | None \<Rightarrow> Inr (link_object c ref w))"

definition make_active :: "nat \<Rightarrow> world \<Rightarrow> world" where
  "make_active ref w = w\<lparr>active_object := Some ref\<rparr>"

definition activate :: "nat \<Rightarrow> env \<Rightarrow> world \<Rightarrow> py_exception + world" where
  "activate ref e w =
     (case set_active e of
        Some x \<Rightarrow> Inl x
      | None \<Rightarrow> Inr (make_active ref w))"

definition mark_selected :: "nat \<Rightarrow> world \<Rightarrow> world" where
  "mark_selected ref w = w\<lparr>objects := (objects w)[ref := (objects w ! ref)\<lparr>selected := True\<rparr>]\<rparr>"

definition select :: "nat \<Rightarrow> env \<Rightarrow> world \<Rightarrow> py_exception + world" where
  "select ref e w =
     (case select_set e of
        Some x \<Rightarrow> Inl x
      | None \<Rightarrow> Inr (mark_selected ref w))"

section \<open>The operators\<close>

text \<open>
  The body of the \<^verbatim>\<open>try\<close> statement of \<^verbatim>\<open>PastePureRefImageOperator.execute\<close>:
  the state it leaves, and the exception it raised, if any.
\<close>

definition paste_image_try :: "env \<Rightarrow> bpy_context \<Rightarrow> world \<Rightarrow> world \<times> py_exception option" where
  "paste_image_try e ctx w =
     (case import_PIL e of
        Some x \<Rightarrow> (w, Some x)
      | None \<Rightarrow>
     (case grabclipboard e of
        Inl x \<Rightarrow> (w, Some x)
      | Inr (Clip_files names) \<Rightarrow> (report ''WARNING'' ''No image in clipboard'' w, None)
      | Inr Clip_none \<Rightarrow> (report ''WARNING'' ''No image in clipboard'' w, None)
      | Inr (Clip_image pil) \<Rightarrow>
     (let temp_dir = gettempdir e;
          temp_path = path_join temp_dir ''clipboard_image.png''
      in
     (case save pil temp_path e w of
        Inl x \<Rightarrow> (w, Some x)
      | Inr w1 \<Rightarrow>
     (case load temp_path e w1 of
        Inl x \<Rightarrow> (w1, Some x)
      | Inr (img, w2) \<Rightarrow>
     (let (ref, w3) = objects_new (image_name (images w2 ! img)) w2;
          w4 = set_empty_display_type ref ''IMAGE'' w3;
          w5 = set_data ref img w4
      in
     (case get_viewport_facing_position ctx 5 of
        Inl x \<Rightarrow> (w5, Some x)
      | Inr (position, rotation) \<Rightarrow>
     (let w6 = set_location ref position w5;
          w7 = set_rotation_euler ref rotation w6;
          base_scale = 2;
          w8 = set_scale ref (base_scale, base_scale, 1) w7
      in
     (case link (collection ctx) ref e w8 of
        Inl x \<Rightarrow> (w8, Some x)
      | Inr w9 \<Rightarrow>
     (case activate ref e w9 of
        Inl x \<Rightarrow> (w9, Some x)
      | Inr w10 \<Rightarrow>
     (case select ref e w10 of
        Inl x \<Rightarrow> (w10, Some x)
      | Inr w11 \<Rightarrow>
          (report ''INFO'' ''Image pasted from clipboard and positioned in front of viewport'' w11,
           None))))))))))))"

text \<open>
  The handlers and the \<^verbatim>\<open>return\<close> after them: \<^verbatim>\<open>except ImportError\<close>, then
  \<^verbatim>\<open>except Exception as e\<close>; any other exception leaves \<^verbatim>\<open>execute\<close>.
\<close>

definition PastePureRefImageOperator_execute :: "env \<Rightarrow> bpy_context \<Rightarrow> world \<Rightarrow> world \<times> outcome" where
  "PastePureRefImageOperator_execute e ctx w =
     (case paste_image_try e ctx w of
        (w', None) \<Rightarrow> (w', Returned {''FINISHED''})
      | (w', Some (ImportError m)) \<Rightarrow>
          (report ''ERROR''
             ''Pillow is not installed. Please install Pillow from the add-on preferences and restart Blender.''
             w',
           Returned {''FINISHED''})
      | (w', Some (Other_Exception m)) \<Rightarrow> (report ''ERROR'' m w', Returned {''FINISHED''})
      | (w', Some (Non_Exception m)) \<Rightarrow> (w', Raised (Non_Exception m)))"

text \<open>The body of the \<^verbatim>\<open>try\<close> statement of \<^verbatim>\<open>PastePureRefFromCursorOperator.execute\<close>.\<close>

definition paste_from_cursor_try :: "env \<Rightarrow> bpy_context \<Rightarrow> world \<Rightarrow> world \<times> py_exception option" where
  "paste_from_cursor_try e ctx w =
     (case import_PIL e of
        Some x \<Rightarrow> (w, Some x)
      | None \<Rightarrow>
     (case grabclipboard e of
        Inl x \<Rightarrow> (w, Some x)
      | Inr (Clip_files names) \<Rightarrow> (report ''WARNING'' ''No image in clipboard'' w, None)
      | Inr Clip_none \<Rightarrow> (report ''WARNING'' ''No image in clipboard'' w, None)
      | Inr (Clip_image pil) \<Rightarrow>
     (let temp_dir = gettempdir e;
          temp_path = path_join temp_dir ''clipboard_image.png''
      in
     (case save pil temp_path e w of
        Inl x \<Rightarrow> (w, Some x)
      | Inr w1 \<Rightarrow>
     (case load temp_path e w1 of
        Inl x \<Rightarrow> (w1, Some x)
      | Inr (img, w2) \<Rightarrow>
     (let (ref, w3) = objects_new (image_name (images w2 ! img)) w2;
          w4 = set_empty_display_type ref ''IMAGE'' w3;
          w5 = set_data ref img w4;
          w6 = set_location ref (cursor_location ctx) w5
      in
     (case get_viewport_facing_position ctx 0 of
        Inl x \<Rightarrow> (w6, Some x)
      | Inr (unused, rotation) \<Rightarrow>
     (let w7 = set_rotation_euler ref rotation w6;
          base_scale = 2;
          w8 = set_scale ref (base_scale, base_scale, 1) w7
      in
     (case link (collection ctx) ref e w8 of
        Inl x \<Rightarrow> (w8, Some x)
      | Inr w9 \<Rightarrow>
     (case activate ref e w9 of
        Inl x \<Rightarrow> (w9, Some x)
      | Inr w10 \<Rightarrow>
     (case select ref e w10 of
        Inl x \<Rightarrow> (w10, Some x)
      | Inr w11 \<Rightarrow>
          (report ''INFO'' ''Image pasted from clipboard at cursor position facing user'' w11,
           None))))))))))))"

definition PastePureRefFromCursorOperator_execute :: "env \<Rightarrow> bpy_context \<Rightarrow> world \<Rightarrow> world \<times> outcome" where
  "PastePureRefFromCursorOperator_execute e ctx w =
     (case paste_from_cursor_try e ctx w of
        (w', None) \<Rightarrow> (w', Returned {''FINISHED''})
      | (w', Some (ImportError m)) \<Rightarrow>
          (report ''ERROR''
             ''Pillow is not installed. Please install Pillow from the add-on preferences and restart Blender.''
             w',
           Returned {''FINISHED''})
      | (w', Some (Other_Exception m)) \<Rightarrow> (report ''ERROR'' m w', Returned {''FINISHED''})
      | (w', Some (Non_Exception m)) \<Rightarrow> (w', Raised (Non_Exception m)))"

text \<open>
  \<^verbatim>\<open>InstallPillowOperator.execute\<close>: its only handler is \<^verbatim>\<open>except Exception as e\<close>,
  which also catches an \<open>ImportError\<close>.
\<close>

definition install_pillow_try :: "env \<Rightarrow> world \<Rightarrow> world \<times> py_exception option" where
  "install_pillow_try e w =
     (case ensurepip_bootstrap e of
        Some x \<Rightarrow> (w, Some x)
      | None \<Rightarrow>
     (case pip_install e of
        Some x \<Rightarrow> (w, Some x)
      | None \<Rightarrow>
          (report ''INFO'' ''Pillow installed successfully. Please restart Blender.'' w, None)))"

definition InstallPillowOperator_execute :: "env \<Rightarrow> bpy_context \<Rightarrow> world \<Rightarrow> world \<times> outcome" where
  "InstallPillowOperator_execute e ctx w =
     (case install_pillow_try e w of
        (w', None) \<Rightarrow> (w', Returned {''FINISHED''})
      | (w', Some (ImportError m)) \<Rightarrow>
          (report ''ERROR'' (''Failed to install Pillow: '' @ m) w', Returned {''FINISHED''})
      | (w', Some (Other_Exception m)) \<Rightarrow>
          (report ''ERROR'' (''Failed to install Pillow: '' @ m) w', Returned {''FINISHED''})
      | (w', Some (Non_Exception m)) \<Rightarrow> (w', Raised (Non_Exception m)))"

text \<open>
  The classes \<^verbatim>\<open>register()\<close> hands to the host, in order, and the \<^verbatim>\<open>execute\<close> of each
  one that is an operator; the preferences panel has none.
\<close>

datatype bl_class =
    InstallPillowOperator
  | PastePureRefImageOperator
  | PastePureRefFromCursorOperator
  | PasterefPreferences

definition register :: "bl_class list \<Rightarrow> bl_class list" where
  "register registered =
     registered @ [InstallPillowOperator, PastePureRefImageOperator,
                   PastePureRefFromCursorOperator, PasterefPreferences]"

fun execute :: "bl_class \<Rightarrow> (env \<Rightarrow> bpy_context \<Rightarrow> world \<Rightarrow> world \<times> outcome) option" where
  "execute InstallPillowOperator = Some InstallPillowOperator_execute"
| "execute PastePureRefImageOperator = Some PastePureRefImageOperator_execute"
| "execute PastePureRefFromCursorOperator = Some PastePureRefFromCursorOperator_execute"
| "execute PasterefPreferences = None"

text \<open>
  \<^verbatim>\<open>isinstance(e, Exception)\<close>, and the exceptions that the calls of one run are set
  to raise.
\<close>

fun is_Exception :: "py_exception \<Rightarrow> bool" where
  "is_Exception (ImportError m) = True"
| "is_Exception (Other_Exception m) = True"
| "is_Exception (Non_Exception m) = False"

definition env_raises :: "env \<Rightarrow> py_exception list" where
  "env_raises e =
     (case grabclipboard e of Inl x \<Rightarrow> [x] | Inr c \<Rightarrow> []) @
     concat (map (case_option [] (\<lambda>x. [x]))
       [import_PIL e, image_save e, images_load e, objects_link e, set_active e, select_set e,
        ensurepip_bootstrap e, pip_install e])"

text \<open>
  The two paste operators, each as the body of its \<^verbatim>\<open>try\<close> statement and its
  \<^verbatim>\<open>execute\<close>; and the reports a run adds, with their levels.
\<close>

definition paste_operators ::
  "((env \<Rightarrow> bpy_context \<Rightarrow> world \<Rightarrow> world \<times> py_exception option) \<times>
    (env \<Rightarrow> bpy_context \<Rightarrow> world \<Rightarrow> world \<times> outcome)) list" where
  "paste_operators =
     [(paste_image_try, PastePureRefImageOperator_execute),
      (paste_from_cursor_try, PastePureRefFromCursorOperator_execute)]"

definition new_reports :: "world \<Rightarrow> world \<Rightarrow> (string \<times> string) list" where
  "new_reports w w' = drop (length (reports w)) (reports w')"

definition reported_levels :: "world \<Rightarrow> world \<Rightarrow> string list" where
  "reported_levels w w' = map fst (new_reports w w')"



section \<open>Example scenes\<close>

text \<open>
  A camera ten units above the origin, rotated about the Y axis by the angle whose sine
  is 45/1013 (about 2.5 degrees) away from looking straight down.
\<close>

definition tilted_camera_matrix :: Matrix4 where
  "tilted_camera_matrix =
     ((1012 / 1013, 0, 45 / 1013, 0),
      (0, 1, 0, 0),
      (- (45 / 1013), 0, 1012 / 1013, 10),
      (0, 0, 0, 1))"

definition tilted_camera_context :: bpy_context where
  "tilted_camera_context =
     \<lparr>scene_camera = Some \<lparr>matrix_world = tilted_camera_matrix\<rparr>,
      cursor_location = (0, 0, 0), screen_areas = [], collection = ''Collection''\<rparr>"



definition level_camera_matrix :: Matrix4 where
  "level_camera_matrix = ((1, 0, 0, 1), (0, 1, 0, 2), (0, 0, 1, 3), (0, 0, 0, 1))"


definition no_camera_context :: bpy_context where
  "no_camera_context =
     \<lparr>scene_camera = None, cursor_location = (0, 0, 0), screen_areas = [],
      collection = ''Collection''\<rparr>"

text \<open>
  A screen with a properties editor and a 3D viewport whose viewer stands at (4, 5, 6)
  and looks down the negative Z axis; the scene camera stands at (1, 2, 3), the 3D
  cursor at (7, 8, 9).
\<close>

definition identity_matrix :: Matrix4 where
  "identity_matrix = ((1, 0, 0, 0), (0, 1, 0, 0), (0, 0, 1, 0), (0, 0, 0, 1))"

definition example_view_matrix :: Matrix4 where
  "example_view_matrix = ((1, 0, 0, - 4), (0, 1, 0, - 5), (0, 0, 1, - 6), (0, 0, 0, 1))"

definition example_view_inverted :: Matrix4 where
  "example_view_inverted = ((1, 0, 0, 4), (0, 1, 0, 5), (0, 0, 1, 6), (0, 0, 0, 1))"

definition example_context :: bpy_context where
  "example_context =
     \<lparr>scene_camera = Some \<lparr>matrix_world = level_camera_matrix\<rparr>,
      cursor_location = (7, 8, 9),
      screen_areas =
        [\<lparr>area_type = ''PROPERTIES'', regions = [''HEADER'', ''WINDOW''],
          view_matrix = identity_matrix\<rparr>,
         \<lparr>area_type = ''VIEW_3D'', regions = [''HEADER'', ''WINDOW''],
          view_matrix = example_view_matrix\<rparr>],
      collection = ''Collection''\<rparr>"

text \<open>
  Runs in which no call raises: the clipboard holds an image that came as a JPEG, a
  list with the name of an image file on disk, or an exception that is no
  \<^verbatim>\<open>Exception\<close> interrupts the clipboard call.
\<close>

definition jpeg_image :: pil_image where
  "jpeg_image = \<lparr>image_format = Some ''JPEG'', pixels = [1, 2, 3]\<rparr>"

definition png_image :: pil_image where
  "png_image = \<lparr>image_format = Some ''PNG'', pixels = [4, 5]\<rparr>"

definition image_env :: env where
  "image_env =
     \<lparr>import_PIL = None, grabclipboard = Inr (Clip_image jpeg_image), gettempdir = ''/tmp'',
      image_save = None, images_load = None, objects_link = None, set_active = None,
      select_set = None, ensurepip_bootstrap = None, pip_install = None\<rparr>"

definition png_env :: env where
  "png_env = image_env\<lparr>grabclipboard := Inr (Clip_image png_image)\<rparr>"

definition files_env :: env where
  "files_env = image_env\<lparr>grabclipboard := Inr (Clip_files [''/home/user/reference.png''])\<rparr>"

definition interrupted_env :: env where
  "interrupted_env = image_env\<lparr>grabclipboard := Inl (Non_Exception ''KeyboardInterrupt'')\<rparr>"

definition empty_world :: world where
  "empty_world =
     \<lparr>files = Map.empty, images = [], objects = [], collection_objects = (\<lambda>c. []),
      active_object = None, reports = [], attribute_writes = []\<rparr>"



definition reference_on_disk_world :: world where
  "reference_on_disk_world = empty_world\<lparr>files := [''/home/user/reference.png'' \<mapsto> png_image]\<rparr>"

section \<open>Properties\<close>

lemma vec_length_normalized:
  assumes "v \<noteq> (0, 0, 0)"
  shows "vec_length (normalized v) = 1"
proof -
  obtain x y z where v: "v = (x, y, z)" by (cases v) auto
  let ?n = "x * x + y * y + z * z"
  have pos: "0 < ?n"
  proof -
    have "x \<noteq> 0 \<or> y \<noteq> 0 \<or> z \<noteq> 0" using assms v by simp
    then have "0 < x * x \<or> 0 < y * y \<or> 0 < z * z"
      by (auto simp: zero_less_mult_iff linorder_neq_iff)
    moreover have "0 \<le> x * x" "0 \<le> y * y" "0 \<le> z * z" by simp_all
    ultimately show ?thesis by linarith
  qed
  define s where "s = sqrt ?n"
  have s0: "s \<noteq> 0" using pos by (simp add: s_def)
  have s2: "s * s = ?n" using pos by (simp add: s_def)
  have nv: "normalized v = (x / s, y / s, z / s)"
    using s0 by (simp add: v normalized_def vec_length_def s_def Let_def)
  have "dot (normalized v) (normalized v) = ?n / (s * s)"
    by (simp add: nv add_divide_distrib)
  also have "\<dots> = 1" using pos by (simp add: s2)
  finally show ?thesis by (simp add: vec_length_def)
qed

lemma sqrt_25: "sqrt 25 = 5"
  by (rule real_sqrt_unique) simp_all

lemma vec_length_scale: "vec_length (vec_scale u k) = \<bar>k\<bar> * vec_length u"
proof -
  obtain x y z where u: "u = (x, y, z)" by (cases u) auto
  have "x * k * (x * k) + y * k * (y * k) + z * k * (z * k) = (k * k) * (x * x + y * y + z * z)"
    by (simp add: algebra_simps)
  then show ?thesis
    by (simp add: u vec_length_def real_sqrt_mult)
qed


lemma camera_position:
  "scene_camera ctx = Some camera \<Longrightarrow>
   fst (get_camera_facing_position mu ctx distance) =
     vec_plus mu (translation (matrix_world camera))
       (vec_times mu
          (vec_normalized mu (mat_mul_vec mu (to_3x3 (matrix_world camera)) (0, 0, - 1)))
          distance)"
  by (simp add: get_camera_facing_position_def Let_def split: prod.splits)

lemma exact_arithmetic_fields:
  "mat_mul_vec exact_arithmetic = mat_vec" "vec_normalized exact_arithmetic = normalized"
  "vec_plus exact_arithmetic = vec_add" "vec_minus exact_arithmetic = vec_sub"
  "vec_times exact_arithmetic = vec_scale" "vec_cross exact_arithmetic = cross"
  by (simp_all add: exact_arithmetic_def)

subsection \<open>The rotation that faces the camera\<close>

lemma look_at_basis_orthonormal:
  assumes unit: "dot d d = 1" and z: "\<bar>vec_z d\<bar> < 1"
  shows "orthonormal (transposed (normalized (cross d (0, 0, 1)),
            normalized (cross (normalized (cross d (0, 0, 1))) d), vec_neg d))"
proof -
  obtain x y z' where d: "d = (x, y, z')" by (cases d) auto
  define n where "n = x * x + y * y"
  define s where "s = sqrt n"
  have u: "n + z' * z' = 1" using unit by (simp add: d n_def)
  have "z' * z' < 1"
  proof -
    have "\<bar>z'\<bar> * \<bar>z'\<bar> < 1 * 1"
      using z by (intro mult_strict_mono') (simp_all add: d)
    then show ?thesis by simp
  qed
  then have pos: "0 < n" using u by linarith
  have s0: "0 < s" using pos by (simp add: s_def)
  have s2: "s * s = n" using pos by (simp add: s_def)
  have sn: "n / s = s"
  proof -
    have "n / s = s * s / s" by (simp add: s2)
    also have "\<dots> = s" using s0 by simp
    finally show ?thesis .
  qed
  have len: "vec_length (y, - x, 0) = s"
    by (simp add: vec_length_def s_def n_def add.commute)
  have right: "normalized (cross d (0, 0, 1)) = (y / s, - x / s, 0)"
    using s0 by (simp add: d normalized_def len)
  have c: "cross (y / s, - x / s, 0) d = (- (x * z') / s, - (y * z') / s, s)"
  proof -
    have "y / s * y + x / s * x = (x * x + y * y) / s"
      by (simp add: add_divide_distrib)
    also have "\<dots> = s" by (simp add: n_def[symmetric] sn)
    finally show ?thesis by (simp add: d)
  qed
  have sq: "(x * z') * (x * z') / (s * s) + (y * z') * (y * z') / (s * s) = z' * z'"
  proof -
    have "(x * z') * (x * z') / (s * s) + (y * z') * (y * z') / (s * s)
        = (z' * z') * (x * x + y * y) / (s * s)"
      by (simp add: add_divide_distrib algebra_simps)
    also have "\<dots> = (z' * z') * n / n" by (simp add: n_def s2)
    also have "\<dots> = z' * z'" using pos by simp
    finally show ?thesis .
  qed
  have l: "vec_length (- (x * z') / s, - (y * z') / s, s) = 1"
  proof -
    have "dot (- (x * z') / s, - (y * z') / s, s) (- (x * z') / s, - (y * z') / s, s) =
        ((x * z') * (x * z') / (s * s) + (y * z') * (y * z') / (s * s)) + s * s"
      by simp
    also have "\<dots> = z' * z' + n" by (subst sq) (simp add: s2)
    also have "\<dots> = 1" using u by simp
    finally show ?thesis by (simp add: vec_length_def)
  qed
  have up: "normalized (cross (y / s, - x / s, 0) d) = (- (x * z') / s, - (y * z') / s, s)"
    unfolding c using l by (simp add: normalized_def)
  have e1: "y * y / (s * s) + x * x / (s * s) = 1"
  proof -
    have "y * y / (s * s) + x * x / (s * s) = (x * x + y * y) / (s * s)"
      by (simp add: add_divide_distrib)
    also have "\<dots> = n / n" by (simp add: n_def s2)
    also have "\<dots> = 1" using pos by simp
    finally show ?thesis .
  qed
  have e2: "x * z' * (x * z') / (s * s) + y * z' * (y * z') / (s * s) + s * s = 1"
  proof -
    have "x * z' * (x * z') / (s * s) + y * z' * (y * z') / (s * s) + s * s = z' * z' + n"
      by (subst sq) (simp add: s2)
    then show ?thesis using u by simp
  qed
  have e3: "x * z' * x / s + y * z' * y / s = s * z'"
  proof -
    have "x * z' * x / s + y * z' * y / s = z' * (x * x + y * y) / s"
      by (simp add: add_divide_distrib algebra_simps)
    also have "\<dots> = z' * (n / s)" by (simp add: n_def)
    also have "\<dots> = s * z'" by (simp add: sn)
    finally show ?thesis .
  qed
  have e4: "x * x + y * y + z' * z' = 1" using u by (simp add: n_def)
  have o: "mat_mul (transposed (transposed ((y / s, - x / s, 0), (- (x * z') / s, - (y * z') / s, s), vec_neg d)))
       (transposed ((y / s, - x / s, 0), (- (x * z') / s, - (y * z') / s, s), vec_neg d)) =
     ((y * y / (s * s) + x * x / (s * s), y * (x * z') / (s * s) - x * (y * z') / (s * s), x * y / s - y * x / s),
      (y * (x * z') / (s * s) - x * (y * z') / (s * s),
       x * z' * (x * z') / (s * s) + y * z' * (y * z') / (s * s) + s * s,
       x * z' * x / s + y * z' * y / s - s * z'),
      (x * y / s - y * x / s, x * z' * x / s + y * z' * y / s - s * z', x * x + y * y + z' * z'))"
    by (simp add: d algebra_simps)
  show ?thesis
    unfolding right up orthonormal_def o
    by (simp only: e1 e2 e3 e4 identity3_def) (simp add: mult.commute mult.left_commute)
qed

lemma direction_to_camera:
  assumes "vec_length u = 1" and "0 < k"
  shows "normalized (vec_sub a (vec_add a (vec_scale u k))) = vec_neg u"
proof -
  obtain x y z where u: "u = (x, y, z)" by (cases u) auto
  obtain a1 a2 a3 where a: "a = (a1, a2, a3)" by (cases a) auto
  have v: "vec_sub a (vec_add a (vec_scale u k)) = vec_scale (vec_neg u) k"
    by (simp add: u a)
  have "vec_length (vec_neg u) = vec_length u"
    by (simp add: u vec_length_def)
  then have l: "vec_length (vec_scale (vec_neg u) k) = k"
    using assms by (simp add: vec_length_scale)
  show ?thesis
    unfolding v normalized_def l using assms(2) by (simp add: u)
qed

lemma fixed_basis_orthonormal:
  "orthonormal (transposed ((1, 0, 0), (0, 1, 0), u)) \<longleftrightarrow> u = (0, 0, 1) \<or> u = (0, 0, - 1)"
proof -
  obtain x y z where u: "u = (x, y, z)" by (cases u) auto
  have "orthonormal (transposed ((1, 0, 0), (0, 1, 0), u)) \<longleftrightarrow> x = 0 \<and> y = 0 \<and> x * x + y * y + z * z = 1"
    by (auto simp add: u orthonormal_def identity3_def)
  also have "\<dots> \<longleftrightarrow> x = 0 \<and> y = 0 \<and> (z = 1 \<or> z = - 1)"
    by (auto simp add: square_eq_1_iff)
  finally show ?thesis by (auto simp add: u)
qed

text \<open>
  Whatever the arithmetic: when the guard \<^verbatim>\<open>abs(direction.z) < 0.999\<close> fails, the rows
  of the matrix are (1, 0, 0), (0, 1, 0) and the negated direction, and the matrix is
  orthonormal only if the direction is exactly (0, 0, 1) or (0, 0, -1).
\<close>

lemma camera_facing_rotation_fixed_axes:
  assumes cam: "scene_camera ctx = Some camera"
    and dir: "direction = vec_normalized mu (vec_minus mu (translation (matrix_world camera))
      (fst (get_camera_facing_position mu ctx distance)))"
    and z: "\<not> \<bar>vec_z direction\<bar> < 0.999"
  shows "snd (get_camera_facing_position mu ctx distance) =
      To_euler (transposed ((1, 0, 0), (0, 1, 0), vec_neg direction)) \<and>
    (orthonormal (transposed ((1, 0, 0), (0, 1, 0), vec_neg direction)) \<longleftrightarrow>
       direction = (0, 0, 1) \<or> direction = (0, 0, - 1))"
proof -
  have d: "direction = vec_normalized mu (vec_minus mu (translation (matrix_world camera))
      (vec_plus mu (translation (matrix_world camera))
        (vec_times mu
          (vec_normalized mu (mat_mul_vec mu (to_3x3 (matrix_world camera)) (0, 0, - 1)))
          distance)))"
    unfolding dir camera_position[OF cam] ..
  have res: "snd (get_camera_facing_position mu ctx distance) =
      To_euler (transposed ((1, 0, 0), (0, 1, 0), vec_neg direction))"
    using z by (simp add: get_camera_facing_position_def cam Let_def d[symmetric])
  obtain x y z' where v: "direction = (x, y, z')" by (cases direction) auto
  have "vec_neg direction = (0, 0, 1) \<or> vec_neg direction = (0, 0, - 1) \<longleftrightarrow>
      direction = (0, 0, 1) \<or> direction = (0, 0, - 1)"
    by (auto simp add: v)
  then show ?thesis using res by (simp add: fixed_basis_orthonormal)
qed

text \<open>
  C1 (the code at the failing input, in exact arithmetic). For the camera tilted about
  2.5 degrees away from looking straight down, the facing direction has z-component
  1012/1013, which is at least 0.999, so \<open>get_camera_facing_position\<close> takes the
  branch with the fixed \<open>right = (1, 0, 0)\<close> and \<open>up = (0, 1, 0)\<close>. The matrix it
  hands to \<open>to_euler\<close> is not orthonormal: its first and third columns have the inner
  product -45/1013.
\<close>

theorem camera_facing_rotation_tilted_camera:
  "get_camera_facing_position exact_arithmetic tilted_camera_context 5 =
     ((- (225 / 1013), 0, 10 - 5060 / 1013),
      To_euler ((1, 0, - (45 / 1013)), (0, 1, 0), (0, 0, - (1012 / 1013)))) \<and>
   \<not> orthonormal ((1, 0, - (45 / 1013)), (0, 1, 0), (0, 0, - (1012 / 1013)))"
  by (simp add: get_camera_facing_position_def exact_arithmetic_fields tilted_camera_context_def
      tilted_camera_matrix_def normalized_def vec_length_def sqrt_25 orthonormal_def
      identity3_def)

text \<open>
  In exact arithmetic, for a camera whose world matrix maps (0, 0, -1) to a vector that
  is not zero, with \<open>u\<close> that vector normalized and a positive distance: the matrix
  handed to \<open>to_euler\<close> has \<open>u\<close>, the direction away from the camera, as its third
  column, and in the branch taken when the absolute z-component of the direction is
  below 0.999 it is orthonormal. The defect is confined to the other branch.
\<close>

lemma camera_facing_rotation_exact:
  assumes cam: "scene_camera ctx = Some camera"
    and fv: "mat_vec (to_3x3 (matrix_world camera)) (0, 0, - 1) \<noteq> (0, 0, 0)"
    and dist: "0 < distance"
    and u_def: "u = normalized (mat_vec (to_3x3 (matrix_world camera)) (0, 0, - 1))"
  shows "\<exists>m. snd (get_camera_facing_position exact_arithmetic ctx distance) = To_euler m \<and>
    mat_vec m (0, 0, 1) = u \<and>
    (\<bar>vec_z (vec_neg u)\<bar> < 0.999 \<longrightarrow> orthonormal m) \<and>
    (0.999 \<le> \<bar>vec_z (vec_neg u)\<bar> \<longrightarrow> (orthonormal m \<longleftrightarrow> u = (0, 0, 1) \<or> u = (0, 0, - 1)))"
proof -
  define d where "d = vec_neg u"
  have lu: "vec_length u = 1" unfolding u_def using fv by (rule vec_length_normalized)
  obtain x y z' where u: "u = (x, y, z')" by (cases u) auto
  have dir: "normalized (vec_sub (translation (matrix_world camera))
      (vec_add (translation (matrix_world camera)) (vec_scale u distance))) = d"
    unfolding d_def using lu dist by (rule direction_to_camera)
  have "sqrt (dot u u) = 1" using lu by (simp add: vec_length_def)
  then have unit_u: "dot u u = 1" by simp
  then have unit: "dot d d = 1" by (simp add: d_def u)
  have nd: "vec_neg d = u" by (simp add: d_def u)
  show ?thesis
  proof (cases "\<bar>vec_z d\<bar> < 0.999")
    case True
    then have zd1: "\<bar>vec_z d\<bar> < 1" by simp
    let ?m = "transposed (normalized (cross d (0, 0, 1)),
              normalized (cross (normalized (cross d (0, 0, 1))) d), vec_neg d)"
    have res: "snd (get_camera_facing_position exact_arithmetic ctx distance) = To_euler ?m"
      using True
      by (simp add: get_camera_facing_position_def exact_arithmetic_fields cam Let_def
          u_def[symmetric] dir)
    have col: "mat_vec ?m (0, 0, 1) = u"
      by (cases "normalized (cross d (0, 0, 1))";
          cases "normalized (cross (normalized (cross d (0, 0, 1))) d)")
         (simp add: d_def u)
    show ?thesis
      using res look_at_basis_orthonormal[OF unit zd1] col True
      by (intro exI[of _ ?m]) (simp add: d_def)
  next
    case False
    let ?m = "transposed ((1, 0, 0), (0, 1, 0), vec_neg d)"
    have res: "snd (get_camera_facing_position exact_arithmetic ctx distance) = To_euler ?m"
      using False
      by (simp add: get_camera_facing_position_def exact_arithmetic_fields cam Let_def
          u_def[symmetric] dir)
    have col: "mat_vec ?m (0, 0, 1) = u"
      by (simp add: d_def u)
    show ?thesis
      using res col False fixed_basis_orthonormal[of u]
      by (intro exI[of _ ?m]) (simp add: d_def[symmetric] nd)
  qed
qed

subsection \<open>The position in front of the camera\<close>




subsection \<open>What the host calls do to each part of the state\<close>

lemma regions_loop_raises:
  "regions_loop rs a d = Some (Inl x) \<Longrightarrow> is_Exception x"
  by (induction rs) (auto simp: viewport_result_def inverted_def Let_def split: if_splits sum.splits)

lemma areas_loop_raises:
  "areas_loop as d = Some (Inl x) \<Longrightarrow> is_Exception x"
  by (induction as) (auto simp: regions_loop_raises split: if_splits option.splits)

lemma viewport_raises:
  "get_viewport_facing_position ctx d = Inl x \<Longrightarrow> is_Exception x"
  by (auto simp: get_viewport_facing_position_def areas_loop_raises split: option.splits)

lemma report_fields:
  "files (report l m w) = files w" "images (report l m w) = images w"
  "objects (report l m w) = objects w" "collection_objects (report l m w) = collection_objects w"
  "active_object (report l m w) = active_object w" "reports (report l m w) = reports w @ [(l, m)]"
  "attribute_writes (report l m w) = attribute_writes w"
  by (simp_all add: report_def)

lemma write_file_fields:
  "files (write_file p i w) = (files w)(p \<mapsto> i)" "images (write_file p i w) = images w"
  "objects (write_file p i w) = objects w"
  "collection_objects (write_file p i w) = collection_objects w"
  "active_object (write_file p i w) = active_object w" "reports (write_file p i w) = reports w"
  "attribute_writes (write_file p i w) = attribute_writes w"
  by (simp_all add: write_file_def)

lemma add_image_fields:
  "files (add_image p w) = files w"
  "images (add_image p w) =
     images w @ [\<lparr>image_name = unique_name (map image_name (images w)) (basename p), filepath = p\<rparr>]"
  "objects (add_image p w) = objects w"
  "collection_objects (add_image p w) = collection_objects w"
  "active_object (add_image p w) = active_object w" "reports (add_image p w) = reports w"
  "attribute_writes (add_image p w) = attribute_writes w"
  by (simp_all add: add_image_def)

lemma add_object_fields:
  "files (add_object n w) = files w" "images (add_object n w) = images w"
  "objects (add_object n w) = objects w @
     [\<lparr>object_name = unique_name (map object_name (objects w)) n,
       empty_display_type = ''PLAIN_AXES'', data = None,
       location = (0, 0, 0), rotation_euler = Tuple3 0 0 0, scale = (1, 1, 1),
       selected = False\<rparr>]"
  "collection_objects (add_object n w) = collection_objects w"
  "active_object (add_object n w) = active_object w" "reports (add_object n w) = reports w"
  "attribute_writes (add_object n w) = attribute_writes w"
  by (simp_all add: add_object_def)

lemma assign_fields:
  "files (assign r a f w) = files w" "images (assign r a f w) = images w"
  "objects (assign r a f w) = (objects w)[r := f (objects w ! r)]"
  "collection_objects (assign r a f w) = collection_objects w"
  "active_object (assign r a f w) = active_object w" "reports (assign r a f w) = reports w"
  "attribute_writes (assign r a f w) = attribute_writes w @ [(r, a)]"
  by (simp_all add: assign_def)

lemma link_object_fields:
  "files (link_object c r w) = files w" "images (link_object c r w) = images w"
  "objects (link_object c r w) = objects w"
  "collection_objects (link_object c r w) = (collection_objects w)(c := collection_objects w c @ [r])"
  "active_object (link_object c r w) = active_object w" "reports (link_object c r w) = reports w"
  "attribute_writes (link_object c r w) = attribute_writes w"
  by (simp_all add: link_object_def)

lemma make_active_fields:
  "files (make_active r w) = files w" "images (make_active r w) = images w"
  "objects (make_active r w) = objects w"
  "collection_objects (make_active r w) = collection_objects w"
  "active_object (make_active r w) = Some r" "reports (make_active r w) = reports w"
  "attribute_writes (make_active r w) = attribute_writes w"
  by (simp_all add: make_active_def)

lemma mark_selected_fields:
  "files (mark_selected r w) = files w" "images (mark_selected r w) = images w"
  "objects (mark_selected r w) = (objects w)[r := (objects w ! r)\<lparr>selected := True\<rparr>]"
  "collection_objects (mark_selected r w) = collection_objects w"
  "active_object (mark_selected r w) = active_object w" "reports (mark_selected r w) = reports w"
  "attribute_writes (mark_selected r w) = attribute_writes w"
  by (simp_all add: mark_selected_def)

lemmas world_fields = report_fields write_file_fields add_image_fields add_object_fields
  assign_fields link_object_fields make_active_fields mark_selected_fields

lemmas call_defs = save_def load_def objects_new_def
  set_empty_display_type_def set_data_def set_location_def set_rotation_euler_def
  set_scale_def link_def activate_def select_def Let_def

lemmas setter_defs = set_empty_display_type_def set_data_def set_location_def
  set_rotation_euler_def set_scale_def

subsection \<open>The runs of the two paste operators, case by case\<close>

text \<open>
  Every run of a \<^verbatim>\<open>try\<close> body ends in one of ten ways: one of the calls raises, the
  clipboard holds no image, or the reference is pasted. Each case gives the state the
  body leaves.
\<close>

lemma paste_image_try_cases [case_names import_raises grab_raises no_image save_raises load_raises viewport_raises link_raises activate_raises select_raises pasted]:
  fixes e ctx w
  defines "path \<equiv> path_join (gettempdir e) ''clipboard_image.png''"
  defines "n \<equiv> length (objects w)"
  defines "i \<equiv> length (images w)"
  obtains
    x where "import_PIL e = Some x" "paste_image_try e ctx w = (w, Some x)"
  | x where "import_PIL e = None" "grabclipboard e = Inl x" "paste_image_try e ctx w = (w, Some x)"
  | c where "import_PIL e = None" "grabclipboard e = Inr c" "c = Clip_none \<or> (\<exists>names. c = Clip_files names)"
      "paste_image_try e ctx w = (report ''WARNING'' ''No image in clipboard'' w, None)"
  | pil x where "import_PIL e = None" "grabclipboard e = Inr (Clip_image pil)"
      "image_save e = Some x" "paste_image_try e ctx w = (w, Some x)"
  | pil x where "import_PIL e = None" "grabclipboard e = Inr (Clip_image pil)"
      "image_save e = None" "images_load e = Some x"
      "paste_image_try e ctx w = (write_file path pil w, Some x)"
  | pil x where "import_PIL e = None" "grabclipboard e = Inr (Clip_image pil)"
      "image_save e = None" "images_load e = None"
      "get_viewport_facing_position ctx 5 = Inl x"
      "paste_image_try e ctx w =
         (set_data n i (set_empty_display_type n ''IMAGE''
            (add_object (unique_name (map image_name (images w)) (basename path)) (add_image path (write_file path pil w)))), Some x)"
  | pil p r x where "import_PIL e = None" "grabclipboard e = Inr (Clip_image pil)"
      "image_save e = None" "images_load e = None"
      "get_viewport_facing_position ctx 5 = Inr (p, r)" "objects_link e = Some x"
      "paste_image_try e ctx w =
         (set_scale n (2, 2, 1) (set_rotation_euler n r (set_location n p
            (set_data n i (set_empty_display_type n ''IMAGE''
              (add_object (unique_name (map image_name (images w)) (basename path)) (add_image path (write_file path pil w))))))), Some x)"
  | pil p r x where "import_PIL e = None" "grabclipboard e = Inr (Clip_image pil)"
      "image_save e = None" "images_load e = None"
      "get_viewport_facing_position ctx 5 = Inr (p, r)" "objects_link e = None"
      "set_active e = Some x"
      "paste_image_try e ctx w =
         (link_object (collection ctx) n
           (set_scale n (2, 2, 1) (set_rotation_euler n r (set_location n p
            (set_data n i (set_empty_display_type n ''IMAGE''
              (add_object (unique_name (map image_name (images w)) (basename path)) (add_image path (write_file path pil w)))))))), Some x)"
  | pil p r x where "import_PIL e = None" "grabclipboard e = Inr (Clip_image pil)"
      "image_save e = None" "images_load e = None"
      "get_viewport_facing_position ctx 5 = Inr (p, r)" "objects_link e = None"
      "set_active e = None" "select_set e = Some x"
      "paste_image_try e ctx w =
         (make_active n (link_object (collection ctx) n
           (set_scale n (2, 2, 1) (set_rotation_euler n r (set_location n p
            (set_data n i (set_empty_display_type n ''IMAGE''
              (add_object (unique_name (map image_name (images w)) (basename path)) (add_image path (write_file path pil w))))))))), Some x)"
  | pil p r where "import_PIL e = None" "grabclipboard e = Inr (Clip_image pil)"
      "image_save e = None" "images_load e = None"
      "get_viewport_facing_position ctx 5 = Inr (p, r)" "objects_link e = None"
      "set_active e = None" "select_set e = None"
      "paste_image_try e ctx w =
         (report ''INFO'' ''Image pasted from clipboard and positioned in front of viewport''
           (mark_selected n (make_active n (link_object (collection ctx) n
             (set_scale n (2, 2, 1) (set_rotation_euler n r (set_location n p
               (set_data n i (set_empty_display_type n ''IMAGE''
                 (add_object (unique_name (map image_name (images w)) (basename path)) (add_image path (write_file path pil w))))))))))),
          None)"
proof (cases "import_PIL e")
  case (Some x)
  then show ?thesis using that(1) by (simp add: paste_image_try_def)
next
  case imp: None
  show ?thesis
  proof (cases "grabclipboard e")
    case (Inl x)
    then show ?thesis using that(2) imp by (simp add: paste_image_try_def)
  next
    case grab: (Inr c)
    show ?thesis
    proof (cases c)
      case (Clip_files names)
      then show ?thesis using that(3) imp grab by (simp add: paste_image_try_def)
    next
      case Clip_none
      then show ?thesis using that(3) imp grab by (simp add: paste_image_try_def)
    next
      case (Clip_image pil)
      note grab' = grab[unfolded Clip_image]
      show ?thesis
      proof (cases "image_save e")
        case (Some x)
        then show ?thesis using that(4) imp grab' by (simp add: paste_image_try_def save_def)
      next
        case sv: None
        show ?thesis
        proof (cases "images_load e")
          case (Some x)
          then show ?thesis using that(5) imp grab' sv
            by (simp add: paste_image_try_def save_def load_def path_def)
        next
          case ld: None
          note pre = imp grab' sv ld
          show ?thesis
          proof (cases "get_viewport_facing_position ctx 5")
            case (Inl x)
            then show ?thesis using that(6) pre
              by (simp add: paste_image_try_def call_defs world_fields path_def n_def i_def)
          next
            case (Inr pr)
            obtain p r where pr: "pr = (p, r)" by (cases pr)
            note vp = Inr[unfolded pr]
            show ?thesis
            proof (cases "objects_link e")
              case (Some x)
              then show ?thesis using that(7) pre vp
                by (simp add: paste_image_try_def call_defs world_fields path_def n_def i_def)
            next
              case lk: None
              show ?thesis
              proof (cases "set_active e")
                case (Some x)
                then show ?thesis using that(8) pre vp lk
                  by (simp add: paste_image_try_def call_defs world_fields path_def n_def i_def)
              next
                case ac: None
                show ?thesis
                proof (cases "select_set e")
                  case (Some x)
                  then show ?thesis using that(9) pre vp lk ac
                    by (simp add: paste_image_try_def call_defs world_fields path_def n_def i_def)
                next
                  case None
                  then show ?thesis using that(10) pre vp lk ac
                    by (simp add: paste_image_try_def call_defs world_fields path_def n_def i_def)
                qed
              qed
            qed
          qed
        qed
      qed
    qed
  qed
qed

lemma paste_from_cursor_try_cases [case_names import_raises grab_raises no_image save_raises load_raises viewport_raises link_raises activate_raises select_raises pasted]:
  fixes e ctx w
  defines "path \<equiv> path_join (gettempdir e) ''clipboard_image.png''"
  defines "n \<equiv> length (objects w)"
  defines "i \<equiv> length (images w)"
  obtains
    x where "import_PIL e = Some x" "paste_from_cursor_try e ctx w = (w, Some x)"
  | x where "import_PIL e = None" "grabclipboard e = Inl x" "paste_from_cursor_try e ctx w = (w, Some x)"
  | c where "import_PIL e = None" "grabclipboard e = Inr c" "c = Clip_none \<or> (\<exists>names. c = Clip_files names)"
      "paste_from_cursor_try e ctx w = (report ''WARNING'' ''No image in clipboard'' w, None)"
  | pil x where "import_PIL e = None" "grabclipboard e = Inr (Clip_image pil)"
      "image_save e = Some x" "paste_from_cursor_try e ctx w = (w, Some x)"
  | pil x where "import_PIL e = None" "grabclipboard e = Inr (Clip_image pil)"
      "image_save e = None" "images_load e = Some x"
      "paste_from_cursor_try e ctx w = (write_file path pil w, Some x)"
  | pil x where "import_PIL e = None" "grabclipboard e = Inr (Clip_image pil)"
      "image_save e = None" "images_load e = None"
      "get_viewport_facing_position ctx 0 = Inl x"
      "paste_from_cursor_try e ctx w =
         (set_location n (cursor_location ctx) (set_data n i (set_empty_display_type n ''IMAGE''
            (add_object (unique_name (map image_name (images w)) (basename path)) (add_image path (write_file path pil w))))), Some x)"
  | pil p r x where "import_PIL e = None" "grabclipboard e = Inr (Clip_image pil)"
      "image_save e = None" "images_load e = None"
      "get_viewport_facing_position ctx 0 = Inr (p, r)" "objects_link e = Some x"
      "paste_from_cursor_try e ctx w =
         (set_scale n (2, 2, 1) (set_rotation_euler n r (set_location n (cursor_location ctx)
            (set_data n i (set_empty_display_type n ''IMAGE''
              (add_object (unique_name (map image_name (images w)) (basename path)) (add_image path (write_file path pil w))))))), Some x)"
  | pil p r x where "import_PIL e = None" "grabclipboard e = Inr (Clip_image pil)"
      "image_save e = None" "images_load e = None"
      "get_viewport_facing_position ctx 0 = Inr (p, r)" "objects_link e = None"
      "set_active e = Some x"
      "paste_from_cursor_try e ctx w =
         (link_object (collection ctx) n
           (set_scale n (2, 2, 1) (set_rotation_euler n r (set_location n (cursor_location ctx)
            (set_data n i (set_empty_display_type n ''IMAGE''
              (add_object (unique_name (map image_name (images w)) (basename path)) (add_image path (write_file path pil w)))))))), Some x)"
  | pil p r x where "import_PIL e = None" "grabclipboard e = Inr (Clip_image pil)"
      "image_save e = None" "images_load e = None"
      "get_viewport_facing_position ctx 0 = Inr (p, r)" "objects_link e = None"
      "set_active e = None" "select_set e = Some x"
      "paste_from_cursor_try e ctx w =
         (make_active n (link_object (collection ctx) n
           (set_scale n (2, 2, 1) (set_rotation_euler n r (set_location n (cursor_location ctx)
            (set_data n i (set_empty_display_type n ''IMAGE''
              (add_object (unique_name (map image_name (images w)) (basename path)) (add_image path (write_file path pil w))))))))), Some x)"
  | pil p r where "import_PIL e = None" "grabclipboard e = Inr (Clip_image pil)"
      "image_save e = None" "images_load e = None"
      "get_viewport_facing_position ctx 0 = Inr (p, r)" "objects_link e = None"
      "set_active e = None" "select_set e = None"
      "paste_from_cursor_try e ctx w =
         (report ''INFO'' ''Image pasted from clipboard at cursor position facing user''
           (mark_selected n (make_active n (link_object (collection ctx) n
             (set_scale n (2, 2, 1) (set_rotation_euler n r (set_location n (cursor_location ctx)
               (set_data n i (set_empty_display_type n ''IMAGE''
                 (add_object (unique_name (map image_name (images w)) (basename path)) (add_image path (write_file path pil w))))))))))),
          None)"
proof (cases "import_PIL e")
  case (Some x)
  then show ?thesis using that(1) by (simp add: paste_from_cursor_try_def)
next
  case imp: None
  show ?thesis
  proof (cases "grabclipboard e")
    case (Inl x)
    then show ?thesis using that(2) imp by (simp add: paste_from_cursor_try_def)
  next
    case grab: (Inr c)
    show ?thesis
    proof (cases c)
      case (Clip_files names)
      then show ?thesis using that(3) imp grab by (simp add: paste_from_cursor_try_def)
    next
      case Clip_none
      then show ?thesis using that(3) imp grab by (simp add: paste_from_cursor_try_def)
    next
      case (Clip_image pil)
      note grab' = grab[unfolded Clip_image]
      show ?thesis
      proof (cases "image_save e")
        case (Some x)
        then show ?thesis using that(4) imp grab' by (simp add: paste_from_cursor_try_def save_def)
      next
        case sv: None
        show ?thesis
        proof (cases "images_load e")
          case (Some x)
          then show ?thesis using that(5) imp grab' sv
            by (simp add: paste_from_cursor_try_def save_def load_def path_def)
        next
          case ld: None
          note pre = imp grab' sv ld
          show ?thesis
          proof (cases "get_viewport_facing_position ctx 0")
            case (Inl x)
            then show ?thesis using that(6) pre
              by (simp add: paste_from_cursor_try_def call_defs world_fields path_def n_def i_def)
          next
            case (Inr pr)
            obtain p r where pr: "pr = (p, r)" by (cases pr)
            note vp = Inr[unfolded pr]
            show ?thesis
            proof (cases "objects_link e")
              case (Some x)
              then show ?thesis using that(7) pre vp
                by (simp add: paste_from_cursor_try_def call_defs world_fields path_def n_def i_def)
            next
              case lk: None
              show ?thesis
              proof (cases "set_active e")
                case (Some x)
                then show ?thesis using that(8) pre vp lk
                  by (simp add: paste_from_cursor_try_def call_defs world_fields path_def n_def i_def)
              next
                case ac: None
                show ?thesis
                proof (cases "select_set e")
                  case (Some x)
                  then show ?thesis using that(9) pre vp lk ac
                    by (simp add: paste_from_cursor_try_def call_defs world_fields path_def n_def i_def)
                next
                  case None
                  then show ?thesis using that(10) pre vp lk ac
                    by (simp add: paste_from_cursor_try_def call_defs world_fields path_def n_def i_def)
                qed
              qed
            qed
          qed
        qed
      qed
    qed
  qed
qed

subsection \<open>The example viewport\<close>

lemma upt_numerals: "[0..<4] = [0, 1, 2, 3]" "[0..<3] = [0, 1, 2]" "[0..<2] = [0, 1]" "[0..<1] = [0]"
  by (simp_all add: upt_rec)

lemma removed_simps:
  "removed 0 (x # xs) = xs" "removed (Suc n) (x # xs) = x # removed n xs" "removed n [] = []"
  by (simp_all add: removed_def)

lemma inverted_example_view_matrix: "inverted example_view_matrix = Inr example_view_inverted"
  by (simp add: example_view_matrix_def example_view_inverted_def inverted_def adjugate_def
      cofactor_def removed_simps of_rows_def list_row_def upt_numerals eval_nat_numeral)

lemma viewport_example:
  "get_viewport_facing_position example_context d =
     Inr ((4, 5, 6 - d), To_euler4 example_view_inverted)"
  by (simp add: get_viewport_facing_position_def example_context_def viewport_result_def
      inverted_example_view_matrix)
     (simp add: example_view_inverted_def normalized_def vec_length_def)

subsection \<open>Facts about every run of a paste operator\<close>

lemma paste_image_pasted:
  assumes "reported_levels w (fst (PastePureRefImageOperator_execute e ctx w)) = [''INFO'']"
  obtains pil p r where
    "grabclipboard e = Inr (Clip_image pil)"
    "get_viewport_facing_position ctx 5 = Inr (p, r)"
    "PastePureRefImageOperator_execute e ctx w =
       (report ''INFO'' ''Image pasted from clipboard and positioned in front of viewport''
          (mark_selected (length (objects w)) (make_active (length (objects w))
            (link_object (collection ctx) (length (objects w))
              (set_scale (length (objects w)) (2, 2, 1)
                (set_rotation_euler (length (objects w)) r
                  (set_location (length (objects w)) p
                    (set_data (length (objects w)) (length (images w))
                      (set_empty_display_type (length (objects w)) ''IMAGE''
                        (add_object (unique_name (map image_name (images w))
                           (basename (path_join (gettempdir e) ''clipboard_image.png'')))
                          (add_image (path_join (gettempdir e) ''clipboard_image.png'')
                            (write_file (path_join (gettempdir e) ''clipboard_image.png'') pil
                               w))))))))))),
        Returned {''FINISHED''})"
  using assms
  by (rule_tac e = e and ctx = ctx and w = w in paste_image_try_cases)
     (auto simp add: PastePureRefImageOperator_execute_def reported_levels_def new_reports_def world_fields
        setter_defs split: py_exception.splits)


lemma paste_from_cursor_pasted:
  assumes "reported_levels w (fst (PastePureRefFromCursorOperator_execute e ctx w)) = [''INFO'']"
  obtains pil p r where
    "grabclipboard e = Inr (Clip_image pil)"
    "get_viewport_facing_position ctx 0 = Inr (p, r)"
    "PastePureRefFromCursorOperator_execute e ctx w =
       (report ''INFO'' ''Image pasted from clipboard at cursor position facing user''
          (mark_selected (length (objects w)) (make_active (length (objects w))
            (link_object (collection ctx) (length (objects w))
              (set_scale (length (objects w)) (2, 2, 1)
                (set_rotation_euler (length (objects w)) r
                  (set_location (length (objects w)) (cursor_location ctx)
                    (set_data (length (objects w)) (length (images w))
                      (set_empty_display_type (length (objects w)) ''IMAGE''
                        (add_object (unique_name (map image_name (images w))
                           (basename (path_join (gettempdir e) ''clipboard_image.png'')))
                          (add_image (path_join (gettempdir e) ''clipboard_image.png'')
                            (write_file (path_join (gettempdir e) ''clipboard_image.png'') pil
                               w))))))))))),
        Returned {''FINISHED''})"
  using assms
  by (rule_tac e = e and ctx = ctx and w = w in paste_from_cursor_try_cases)
     (auto simp add: PastePureRefFromCursorOperator_execute_def reported_levels_def new_reports_def world_fields
        setter_defs split: py_exception.splits)

lemma paste_image_frame:
  "take (length (objects w)) (objects (fst (PastePureRefImageOperator_execute e ctx w))) = objects w"
  "take (length (images w)) (images (fst (PastePureRefImageOperator_execute e ctx w))) = images w"
  "take (length (reports w)) (reports (fst (PastePureRefImageOperator_execute e ctx w))) = reports w"
  "take (length (attribute_writes w)) (attribute_writes (fst (PastePureRefImageOperator_execute e ctx w))) = attribute_writes w"
  by (rule_tac [!] e = e and ctx = ctx and w = w in paste_image_try_cases)
     (simp_all add: PastePureRefImageOperator_execute_def world_fields setter_defs split: py_exception.splits)


lemma paste_image_reports:
  "new_reports w (fst (PastePureRefImageOperator_execute e ctx w)) =
     (case snd (paste_image_try e ctx w) of
        None \<Rightarrow>
          [case grabclipboard e of
             Inr (Clip_image pil) \<Rightarrow> (''INFO'', ''Image pasted from clipboard and positioned in front of viewport'')
           | _ \<Rightarrow> (''WARNING'', ''No image in clipboard'')]
      | Some (ImportError m) \<Rightarrow>
          [(''ERROR'',
            ''Pillow is not installed. Please install Pillow from the add-on preferences and restart Blender.'')]
      | Some (Other_Exception m) \<Rightarrow> [(''ERROR'', m)]
      | Some (Non_Exception m) \<Rightarrow> [])"
  by (rule_tac e = e and ctx = ctx and w = w in paste_image_try_cases)
     (auto simp add: PastePureRefImageOperator_execute_def new_reports_def world_fields setter_defs split: py_exception.splits)

lemma paste_image_raised:
  "import_PIL e = Some x \<Longrightarrow> snd (paste_image_try e ctx w) = Some x"
  "import_PIL e = None \<Longrightarrow> grabclipboard e = Inl x \<Longrightarrow> snd (paste_image_try e ctx w) = Some x"
  "import_PIL e = None \<Longrightarrow> grabclipboard e = Inr Clip_none \<Longrightarrow> snd (paste_image_try e ctx w) = None"
  "import_PIL e = None \<Longrightarrow> grabclipboard e = Inr (Clip_files names) \<Longrightarrow> snd (paste_image_try e ctx w) = None"
  by (simp_all add: paste_image_try_def)

lemma paste_image_outcome:
  "snd (PastePureRefImageOperator_execute e ctx w) =
     (case snd (paste_image_try e ctx w) of
        Some (Non_Exception m) \<Rightarrow> Raised (Non_Exception m)
      | _ \<Rightarrow> Returned {''FINISHED''})"
  by (simp add: PastePureRefImageOperator_execute_def split: prod.splits option.splits py_exception.splits)

lemma paste_image_non_exception:
  "snd (paste_image_try e ctx w) = Some x \<Longrightarrow> \<not> is_Exception x \<Longrightarrow> x \<in> set (env_raises e)"
  by (rule paste_image_try_cases[of e ctx w]) (auto simp add: env_raises_def dest: viewport_raises)

lemma paste_image_files:
  "import_PIL e = None \<Longrightarrow> grabclipboard e = Inr (Clip_image pil) \<Longrightarrow> image_save e = None \<Longrightarrow>
   files (fst (PastePureRefImageOperator_execute e ctx w)) = (files w)(path_join (gettempdir e) ''clipboard_image.png'' \<mapsto> pil)"
  by (rule paste_image_try_cases[of e ctx w])
     (simp_all add: PastePureRefImageOperator_execute_def world_fields setter_defs split: py_exception.splits)


lemma paste_from_cursor_frame:
  "take (length (objects w)) (objects (fst (PastePureRefFromCursorOperator_execute e ctx w))) = objects w"
  "take (length (images w)) (images (fst (PastePureRefFromCursorOperator_execute e ctx w))) = images w"
  "take (length (reports w)) (reports (fst (PastePureRefFromCursorOperator_execute e ctx w))) = reports w"
  "take (length (attribute_writes w)) (attribute_writes (fst (PastePureRefFromCursorOperator_execute e ctx w))) = attribute_writes w"
  by (rule_tac [!] e = e and ctx = ctx and w = w in paste_from_cursor_try_cases)
     (simp_all add: PastePureRefFromCursorOperator_execute_def world_fields setter_defs split: py_exception.splits)


lemma paste_from_cursor_reports:
  "new_reports w (fst (PastePureRefFromCursorOperator_execute e ctx w)) =
     (case snd (paste_from_cursor_try e ctx w) of
        None \<Rightarrow>
          [case grabclipboard e of
             Inr (Clip_image pil) \<Rightarrow> (''INFO'', ''Image pasted from clipboard at cursor position facing user'')
           | _ \<Rightarrow> (''WARNING'', ''No image in clipboard'')]
      | Some (ImportError m) \<Rightarrow>
          [(''ERROR'',
            ''Pillow is not installed. Please install Pillow from the add-on preferences and restart Blender.'')]
      | Some (Other_Exception m) \<Rightarrow> [(''ERROR'', m)]
      | Some (Non_Exception m) \<Rightarrow> [])"
  by (rule_tac e = e and ctx = ctx and w = w in paste_from_cursor_try_cases)
     (auto simp add: PastePureRefFromCursorOperator_execute_def new_reports_def world_fields setter_defs split: py_exception.splits)

lemma paste_from_cursor_raised:
  "import_PIL e = Some x \<Longrightarrow> snd (paste_from_cursor_try e ctx w) = Some x"
  "import_PIL e = None \<Longrightarrow> grabclipboard e = Inl x \<Longrightarrow> snd (paste_from_cursor_try e ctx w) = Some x"
  "import_PIL e = None \<Longrightarrow> grabclipboard e = Inr Clip_none \<Longrightarrow> snd (paste_from_cursor_try e ctx w) = None"
  "import_PIL e = None \<Longrightarrow> grabclipboard e = Inr (Clip_files names) \<Longrightarrow> snd (paste_from_cursor_try e ctx w) = None"
  by (simp_all add: paste_from_cursor_try_def)

lemma paste_from_cursor_outcome:
  "snd (PastePureRefFromCursorOperator_execute e ctx w) =
     (case snd (paste_from_cursor_try e ctx w) of
        Some (Non_Exception m) \<Rightarrow> Raised (Non_Exception m)
      | _ \<Rightarrow> Returned {''FINISHED''})"
  by (simp add: PastePureRefFromCursorOperator_execute_def split: prod.splits option.splits py_exception.splits)

lemma paste_from_cursor_non_exception:
  "snd (paste_from_cursor_try e ctx w) = Some x \<Longrightarrow> \<not> is_Exception x \<Longrightarrow> x \<in> set (env_raises e)"
  by (rule paste_from_cursor_try_cases[of e ctx w]) (auto simp add: env_raises_def dest: viewport_raises)

lemma paste_from_cursor_files:
  "import_PIL e = None \<Longrightarrow> grabclipboard e = Inr (Clip_image pil) \<Longrightarrow> image_save e = None \<Longrightarrow>
   files (fst (PastePureRefFromCursorOperator_execute e ctx w)) = (files w)(path_join (gettempdir e) ''clipboard_image.png'' \<mapsto> pil)"
  by (rule paste_from_cursor_try_cases[of e ctx w])
     (simp_all add: PastePureRefFromCursorOperator_execute_def world_fields setter_defs split: py_exception.splits)


subsection \<open>The operators on the example scenes\<close>

lemma paste_operators_cases:
  assumes "(t, f) \<in> set paste_operators"
  obtains "t = paste_image_try" "f = PastePureRefImageOperator_execute"
  | "t = paste_from_cursor_try" "f = PastePureRefFromCursorOperator_execute"
  using assms by (auto simp: paste_operators_def)

lemma empty_world_fields:
  "files empty_world = Map.empty" "images empty_world = []" "objects empty_world = []"
  "collection_objects empty_world = (\<lambda>c. [])" "active_object empty_world = None"
  "reports empty_world = []" "attribute_writes empty_world = []"
  by (simp_all add: empty_world_def)

lemma example_context_fields:
  "cursor_location example_context = (7, 8, 9)" "collection example_context = ''Collection''"
  "scene_camera example_context = Some \<lparr>matrix_world = level_camera_matrix\<rparr>"
  by (simp_all add: example_context_def)

lemma image_env_fields:
  "import_PIL image_env = None" "grabclipboard image_env = Inr (Clip_image jpeg_image)"
  "gettempdir image_env = ''/tmp''" "image_save image_env = None" "images_load image_env = None"
  "objects_link image_env = None" "set_active image_env = None" "select_set image_env = None"
  by (simp_all add: image_env_def)

lemma temp_path_example:
  "path_join ''/tmp'' ''clipboard_image.png'' = ''/tmp/clipboard_image.png''"
  "basename ''/tmp/clipboard_image.png'' = ''clipboard_image.png''"
  by (simp_all add: path_join_def basename_def)

lemma unique_name_free: "name \<notin> set used \<Longrightarrow> unique_name used name = name"
  by (simp add: unique_name_def)

lemma unique_name_example:
  "unique_name [] name = name"
  "unique_name [''clipboard_image.png''] ''clipboard_image.png'' = ''clipboard_image.png.001''"
  "unique_name [''clipboard_image.png''] ''clipboard_image.png.001'' = ''clipboard_image.png.001''"
  "unique_name [''reference.png''] ''clipboard_image.png'' = ''clipboard_image.png''"
  by (simp_all add: unique_name_def strip_number_def pad3_def upt_rec)

lemma paste_image_ok:
  assumes "import_PIL e = None" "grabclipboard e = Inr (Clip_image pil)"
    "image_save e = None" "images_load e = None"
    "get_viewport_facing_position ctx 5 = Inr (p, r)"
    "objects_link e = None" "set_active e = None" "select_set e = None"
  shows "PastePureRefImageOperator_execute e ctx w =
       (report ''INFO'' ''Image pasted from clipboard and positioned in front of viewport''
          (mark_selected (length (objects w)) (make_active (length (objects w))
            (link_object (collection ctx) (length (objects w))
              (set_scale (length (objects w)) (2, 2, 1)
                (set_rotation_euler (length (objects w)) r
                  (set_location (length (objects w)) p
                    (set_data (length (objects w)) (length (images w))
                      (set_empty_display_type (length (objects w)) ''IMAGE''
                        (add_object (unique_name (map image_name (images w))
                           (basename (path_join (gettempdir e) ''clipboard_image.png'')))
                          (add_image (path_join (gettempdir e) ''clipboard_image.png'')
                            (write_file (path_join (gettempdir e) ''clipboard_image.png'') pil
                               w))))))))))),
        Returned {''FINISHED''})"
  by (simp add: PastePureRefImageOperator_execute_def paste_image_try_def call_defs assms
      world_fields)

lemma paste_from_cursor_ok:
  assumes "import_PIL e = None" "grabclipboard e = Inr (Clip_image pil)"
    "image_save e = None" "images_load e = None"
    "get_viewport_facing_position ctx 0 = Inr (p, r)"
    "objects_link e = None" "set_active e = None" "select_set e = None"
  shows "PastePureRefFromCursorOperator_execute e ctx w =
       (report ''INFO'' ''Image pasted from clipboard at cursor position facing user''
          (mark_selected (length (objects w)) (make_active (length (objects w))
            (link_object (collection ctx) (length (objects w))
              (set_scale (length (objects w)) (2, 2, 1)
                (set_rotation_euler (length (objects w)) r
                  (set_location (length (objects w)) (cursor_location ctx)
                    (set_data (length (objects w)) (length (images w))
                      (set_empty_display_type (length (objects w)) ''IMAGE''
                        (add_object (unique_name (map image_name (images w))
                           (basename (path_join (gettempdir e) ''clipboard_image.png'')))
                          (add_image (path_join (gettempdir e) ''clipboard_image.png'')
                            (write_file (path_join (gettempdir e) ''clipboard_image.png'') pil
                               w))))))))))),
        Returned {''FINISHED''})"
  by (simp add: PastePureRefFromCursorOperator_execute_def paste_from_cursor_try_def call_defs
      assms world_fields)

lemmas paste_image_example =
  paste_image_ok[of image_env jpeg_image example_context, OF image_env_fields(1,2,4,5)
    viewport_example image_env_fields(6,7,8)]

lemmas paste_from_cursor_example =
  paste_from_cursor_ok[of image_env jpeg_image example_context, OF image_env_fields(1,2,4,5)
    viewport_example image_env_fields(6,7,8)]

lemmas example_fields = world_fields setter_defs empty_world_fields example_context_fields
  image_env_fields temp_path_example unique_name_example

lemma example_levels:
  "reported_levels empty_world (fst (PastePureRefImageOperator_execute image_env example_context empty_world)) = [''INFO'']"
  "reported_levels empty_world (fst (PastePureRefFromCursorOperator_execute image_env example_context empty_world)) = [''INFO'']"
  by (simp_all add: paste_image_example paste_from_cursor_example reported_levels_def
      new_reports_def example_fields)






subsection \<open>Where the pasted reference is placed\<close>









lemma viewport_cursor:
  "get_viewport_facing_position (ctx\<lparr>cursor_location := c\<rparr>) d = get_viewport_facing_position ctx d"
  by (simp add: get_viewport_facing_position_def)

text \<open>
  C5. On a successful paste by \<open>PastePureRefFromCursorOperator\<close> the location of the
  created object is the 3D cursor's location, and its rotation is the rotation that
  \<open>get_viewport_facing_position\<close> returns for the context at distance 0; that
  function does not read the cursor.
\<close>

theorem paste_from_cursor_location_and_rotation:
  assumes "reported_levels w (fst (PastePureRefFromCursorOperator_execute e ctx w)) = [''INFO'']"
  shows "location (objects (fst (PastePureRefFromCursorOperator_execute e ctx w)) ! length (objects w)) =
      cursor_location ctx \<and>
    (\<exists>p. get_viewport_facing_position ctx 0 =
       Inr (p, rotation_euler
             (objects (fst (PastePureRefFromCursorOperator_execute e ctx w)) ! length (objects w)))) \<and>
    get_viewport_facing_position (ctx\<lparr>cursor_location := c\<rparr>) 0 =
      get_viewport_facing_position ctx 0"
  using assms
proof (rule paste_from_cursor_pasted)
  fix pil p r
  assume v: "get_viewport_facing_position ctx 0 = Inr (p, r)"
    and x: "PastePureRefFromCursorOperator_execute e ctx w =
       (report ''INFO'' ''Image pasted from clipboard at cursor position facing user''
          (mark_selected (length (objects w)) (make_active (length (objects w))
            (link_object (collection ctx) (length (objects w))
              (set_scale (length (objects w)) (2, 2, 1)
                (set_rotation_euler (length (objects w)) r
                  (set_location (length (objects w)) (cursor_location ctx)
                    (set_data (length (objects w)) (length (images w))
                      (set_empty_display_type (length (objects w)) ''IMAGE''
                        (add_object (unique_name (map image_name (images w))
                           (basename (path_join (gettempdir e) ''clipboard_image.png'')))
                          (add_image (path_join (gettempdir e) ''clipboard_image.png'')
                            (write_file (path_join (gettempdir e) ''clipboard_image.png'') pil
                               w))))))))))),
        Returned {''FINISHED''})"
  have l: "location (objects (fst (PastePureRefFromCursorOperator_execute e ctx w)) ! length (objects w)) =
      cursor_location ctx"
    and r: "rotation_euler
      (objects (fst (PastePureRefFromCursorOperator_execute e ctx w)) ! length (objects w)) = r"
    by (simp_all add: x world_fields setter_defs)
  show ?thesis
    by (intro conjI exI[of _ p]) (simp_all add: l r v viewport_cursor)
qed

theorem paste_from_cursor_location_and_rotation_witness:
  "reported_levels empty_world
     (fst (PastePureRefFromCursorOperator_execute image_env example_context empty_world)) = [''INFO''] \<and>
   location (objects (fst (PastePureRefFromCursorOperator_execute image_env example_context empty_world)) ! 0) =
     (7, 8, 9) \<and>
   get_viewport_facing_position example_context 0 =
     Inr ((4, 5, 6), rotation_euler
       (objects (fst (PastePureRefFromCursorOperator_execute image_env example_context empty_world)) ! 0))"
  using paste_from_cursor_location_and_rotation[of empty_world image_env example_context "(0, 0, 0)"]
  by (simp add: example_levels empty_world_fields example_context_fields viewport_example)

subsection \<open>What is pasted\<close>

lemma install_pillow_objects:
  "objects (fst (InstallPillowOperator_execute e ctx w)) = objects w"
  by (simp add: InstallPillowOperator_execute_def install_pillow_try_def world_fields
      split: option.splits py_exception.splits)

text \<open>
  C3 (the code at the failing input). An image file lies on disk and the clipboard
  holds the list with its name, as after copying the file in a file manager. Both paste
  operators report the warning that there is no image in the clipboard and create no
  object; the installer creates none either, and the preferences panel has no
  \<open>execute\<close>. No registered class takes a file name from the user.
\<close>

theorem file_list_clipboard_pastes_nothing:
  "register [] = [InstallPillowOperator, PastePureRefImageOperator,
                  PastePureRefFromCursorOperator, PasterefPreferences] \<and>
   execute PasterefPreferences = None \<and>
   files reference_on_disk_world ''/home/user/reference.png'' = Some png_image \<and>
   grabclipboard files_env = Inr (Clip_files [''/home/user/reference.png'']) \<and>
   PastePureRefImageOperator_execute files_env example_context reference_on_disk_world =
     (report ''WARNING'' ''No image in clipboard'' reference_on_disk_world, Returned {''FINISHED''}) \<and>
   PastePureRefFromCursorOperator_execute files_env example_context reference_on_disk_world =
     (report ''WARNING'' ''No image in clipboard'' reference_on_disk_world, Returned {''FINISHED''}) \<and>
   objects (report ''WARNING'' ''No image in clipboard'' reference_on_disk_world) = [] \<and>
   objects (fst (InstallPillowOperator_execute files_env example_context reference_on_disk_world)) = []"
  by (simp add: register_def PastePureRefImageOperator_execute_def paste_image_try_def
      PastePureRefFromCursorOperator_execute_def paste_from_cursor_try_def files_env_def
      image_env_def reference_on_disk_world_def install_pillow_objects world_fields
      empty_world_fields)

text \<open>
  Whatever the run, an operator creates an object only when the clipboard call returned
  an image, which is then the content of the temporary file.
\<close>

lemma objects_created_from_clipboard_image_only:
  assumes "execute c = Some f" and "objects (fst (f e ctx w)) \<noteq> objects w"
  shows "\<exists>pil. import_PIL e = None \<and> grabclipboard e = Inr (Clip_image pil) \<and>
    image_save e = None \<and>
    files (fst (f e ctx w)) (path_join (gettempdir e) ''clipboard_image.png'') = Some pil"
proof (cases c)
  case InstallPillowOperator
  with assms show ?thesis by (simp add: install_pillow_objects)
next
  case PastePureRefImageOperator
  with assms have f: "f = PastePureRefImageOperator_execute" by simp
  from assms(2) show ?thesis unfolding f
    by (rule_tac e = e and ctx = ctx and w = w in paste_image_try_cases)
       (auto simp add: PastePureRefImageOperator_execute_def world_fields setter_defs
          split: py_exception.splits)
next
  case PastePureRefFromCursorOperator
  with assms have f: "f = PastePureRefFromCursorOperator_execute" by simp
  from assms(2) show ?thesis unfolding f
    by (rule_tac e = e and ctx = ctx and w = w in paste_from_cursor_try_cases)
       (auto simp add: PastePureRefFromCursorOperator_execute_def world_fields setter_defs
          split: py_exception.splits)
next
  case PasterefPreferences
  with assms show ?thesis by simp
qed

text \<open>
  C9. Whenever the import and the clipboard call succeed with an image and the save does
  not raise, either paste operator leaves that image in the file named
  \<open>clipboard_image.png\<close> in the temporary directory, whatever the image and its
  format, and changes no other file; so after a second such paste, by either operator,
  that file holds the second image.
\<close>

theorem clipboard_image_saved_to_fixed_path:
  assumes "(t1, f1) \<in> set paste_operators" and "(t2, f2) \<in> set paste_operators"
    and "import_PIL e1 = None" and "grabclipboard e1 = Inr (Clip_image pil1)"
    and "image_save e1 = None"
    and "import_PIL e2 = None" and "grabclipboard e2 = Inr (Clip_image pil2)"
    and "image_save e2 = None"
    and "gettempdir e2 = gettempdir e1"
  shows "files (fst (f1 e1 ctx1 w)) =
      (files w)(path_join (gettempdir e1) ''clipboard_image.png'' \<mapsto> pil1) \<and>
    files (fst (f2 e2 ctx2 (fst (f1 e1 ctx1 w)))) =
      (files w)(path_join (gettempdir e1) ''clipboard_image.png'' \<mapsto> pil2)"
proof -
  have one: "files (fst (f e ctx v)) = (files v)(path_join (gettempdir e) ''clipboard_image.png'' \<mapsto> pil)"
    if "(t, f) \<in> set paste_operators" "import_PIL e = None"
      "grabclipboard e = Inr (Clip_image pil)" "image_save e = None"
    for t f e ctx v pil
    using that
    by (cases rule: paste_operators_cases) (simp_all add: paste_image_files paste_from_cursor_files)
  show ?thesis
    by (simp add: one[OF assms(1,3,4,5)] one[OF assms(2,6,7,8)] assms(9))
qed

theorem clipboard_image_saved_to_fixed_path_witness:
  "files (fst (PastePureRefImageOperator_execute image_env example_context empty_world))
     ''/tmp/clipboard_image.png'' = Some jpeg_image \<and>
   files (fst (PastePureRefFromCursorOperator_execute png_env no_camera_context
     (fst (PastePureRefImageOperator_execute image_env example_context empty_world))))
     ''/tmp/clipboard_image.png'' = Some png_image"
  using clipboard_image_saved_to_fixed_path[of paste_image_try PastePureRefImageOperator_execute
      paste_from_cursor_try PastePureRefFromCursorOperator_execute image_env jpeg_image
      png_env png_image example_context empty_world no_camera_context]
  by (simp add: paste_operators_def image_env_def png_env_def path_join_def)

subsection \<open>Failures and the returned status\<close>

text \<open>
  C4 as stated fails: an exception that is not an instance of \<^verbatim>\<open>Exception\<close>, here a
  \<^verbatim>\<open>KeyboardInterrupt\<close> during the clipboard call, is raised in the \<^verbatim>\<open>try\<close> body
  and no report is made.
\<close>

theorem paste_from_cursor_interrupt_not_reported_counterexample:
  "snd (paste_from_cursor_try interrupted_env example_context empty_world) =
     Some (Non_Exception ''KeyboardInterrupt'') \<and>
   reports (fst (PastePureRefFromCursorOperator_execute interrupted_env example_context empty_world)) = []"
  by (simp add: PastePureRefFromCursorOperator_execute_def paste_from_cursor_try_def
      interrupted_env_def image_env_def empty_world_fields)

text \<open>
  C4 (amended). A run of either paste operator keeps the earlier reports and adds:
  for an \<open>ImportError\<close> raised in the \<^verbatim>\<open>try\<close> body (a failing import of the
  imaging library is one), the error that tells the user to install Pillow; for a
  clipboard that holds no image, the warning \<open>No image in clipboard\<close>; for any
  other instance of \<^verbatim>\<open>Exception\<close>, an error with the exception's message. An
  exception that is not an instance of \<^verbatim>\<open>Exception\<close> is not reported and leaves
  \<open>execute\<close>.
\<close>

theorem paste_reports_failures:
  assumes "(t, f) \<in> set paste_operators"
  shows "take (length (reports w)) (reports (fst (f e ctx w))) = reports w \<and>
    (import_PIL e = Some x \<longrightarrow> snd (t e ctx w) = Some x) \<and>
    (snd (t e ctx w) = Some (ImportError m) \<longrightarrow>
       new_reports w (fst (f e ctx w)) =
         [(''ERROR'',
           ''Pillow is not installed. Please install Pillow from the add-on preferences and restart Blender.'')]) \<and>
    (import_PIL e = None \<and>
       (grabclipboard e = Inr Clip_none \<or> grabclipboard e = Inr (Clip_files names)) \<longrightarrow>
       new_reports w (fst (f e ctx w)) = [(''WARNING'', ''No image in clipboard'')]) \<and>
    (snd (t e ctx w) = Some (Other_Exception m) \<longrightarrow>
       new_reports w (fst (f e ctx w)) = [(''ERROR'', m)]) \<and>
    (snd (t e ctx w) = Some (Non_Exception m) \<longrightarrow>
       new_reports w (fst (f e ctx w)) = [] \<and> snd (f e ctx w) = Raised (Non_Exception m))"
  using assms
proof (cases rule: paste_operators_cases)
  case 1
  show ?thesis unfolding 1
    by (auto simp add: paste_image_frame paste_image_reports paste_image_raised
        paste_image_outcome)
next
  case 2
  show ?thesis unfolding 2
    by (auto simp add: paste_from_cursor_frame paste_from_cursor_reports paste_from_cursor_raised
        paste_from_cursor_outcome)
qed

theorem paste_reports_failures_witness:
  "new_reports empty_world
     (fst (PastePureRefImageOperator_execute
        (image_env\<lparr>import_PIL := Some (ImportError ''No module named PIL'')\<rparr>)
        example_context empty_world)) =
     [(''ERROR'',
       ''Pillow is not installed. Please install Pillow from the add-on preferences and restart Blender.'')] \<and>
   new_reports empty_world
     (fst (PastePureRefImageOperator_execute files_env example_context empty_world)) =
     [(''WARNING'', ''No image in clipboard'')] \<and>
   new_reports empty_world
     (fst (PastePureRefImageOperator_execute
        (image_env\<lparr>image_save := Some (Other_Exception ''cannot write mode CMYK as PNG'')\<rparr>)
        example_context empty_world)) =
     [(''ERROR'', ''cannot write mode CMYK as PNG'')]"
  using paste_reports_failures[where t = paste_image_try and f = PastePureRefImageOperator_execute
      and e = "image_env\<lparr>import_PIL := Some (ImportError ''No module named PIL'')\<rparr>"
      and ctx = example_context and w = empty_world
      and x = "ImportError ''No module named PIL''" and m = "''No module named PIL''"]
    paste_reports_failures[where t = paste_image_try and f = PastePureRefImageOperator_execute
      and e = files_env and ctx = example_context and w = empty_world
      and names = "[''/home/user/reference.png'']"]
    paste_reports_failures[where t = paste_image_try and f = PastePureRefImageOperator_execute
      and e = "image_env\<lparr>image_save := Some (Other_Exception ''cannot write mode CMYK as PNG'')\<rparr>"
      and ctx = example_context and w = empty_world
      and m = "''cannot write mode CMYK as PNG''"]
  by (simp add: paste_operators_def files_env_def image_env_def paste_image_try_def save_def)

text \<open>
  C7 as stated fails: the \<^verbatim>\<open>KeyboardInterrupt\<close> raised by the clipboard call is caught
  by neither handler and leaves \<open>execute\<close>.
\<close>

theorem paste_image_interrupt_propagates_counterexample:
  "snd (PastePureRefImageOperator_execute interrupted_env example_context empty_world) =
     Raised (Non_Exception ''KeyboardInterrupt'')"
  by (simp add: PastePureRefImageOperator_execute_def paste_image_try_def
      interrupted_env_def image_env_def)

text \<open>
  C7 (amended). A run of either paste operator whose \<^verbatim>\<open>try\<close> body raises nothing, or
  raises an instance of \<^verbatim>\<open>Exception\<close>, returns \<open>{'FINISHED'}\<close>. Only an exception
  that is not an instance of \<^verbatim>\<open>Exception\<close> leaves \<open>execute\<close>, and it is always one
  that a call into the library or the host raised; when those raise instances of
  \<^verbatim>\<open>Exception\<close> only, \<open>execute\<close> returns \<open>{'FINISHED'}\<close>.
\<close>

theorem paste_execute_outcome:
  assumes "(t, f) \<in> set paste_operators"
  shows "(snd (t e ctx w) = None \<longrightarrow> snd (f e ctx w) = Returned {''FINISHED''}) \<and>
    (snd (t e ctx w) = Some x \<and> is_Exception x \<longrightarrow> snd (f e ctx w) = Returned {''FINISHED''}) \<and>
    (snd (t e ctx w) = Some x \<and> \<not> is_Exception x \<longrightarrow>
       snd (f e ctx w) = Raised x \<and> x \<in> set (env_raises e)) \<and>
    (list_all is_Exception (env_raises e) \<longrightarrow> snd (f e ctx w) = Returned {''FINISHED''})"
proof -
  have out: "snd (f e ctx w) =
     (case snd (t e ctx w) of
        Some (Non_Exception m) \<Rightarrow> Raised (Non_Exception m)
      | _ \<Rightarrow> Returned {''FINISHED''})"
    using assms
    by (cases rule: paste_operators_cases) (simp_all add: paste_image_outcome paste_from_cursor_outcome)
  have non: "y \<in> set (env_raises e)" if "snd (t e ctx w) = Some y" "\<not> is_Exception y" for y
    using assms that
    by (cases rule: paste_operators_cases)
       (simp_all add: paste_image_non_exception paste_from_cursor_non_exception)
  have a: "snd (f e ctx w) = Returned {''FINISHED''}" if "snd (t e ctx w) = None"
    using that by (simp add: out)
  have b: "snd (f e ctx w) = Returned {''FINISHED''}" if "snd (t e ctx w) = Some x" "is_Exception x"
    using that by (cases x) (simp_all add: out)
  have c: "snd (f e ctx w) = Raised x" if "snd (t e ctx w) = Some x" "\<not> is_Exception x"
    using that by (cases x) (simp_all add: out)
  have d: "snd (f e ctx w) = Returned {''FINISHED''}" if all: "list_all is_Exception (env_raises e)"
  proof (cases "snd (t e ctx w)")
    case None
    then show ?thesis by (rule a)
  next
    case (Some y)
    have "is_Exception y"
    proof (rule ccontr)
      assume n: "\<not> is_Exception y"
      from non[OF Some n] all show False using n by (simp add: list_all_iff)
    qed
    with Some show ?thesis by (cases y) (simp_all add: out)
  qed
  show ?thesis using a b c d non by blast
qed

theorem paste_execute_outcome_witness:
  "snd (PastePureRefImageOperator_execute image_env example_context empty_world) =
     Returned {''FINISHED''} \<and>
   snd (PastePureRefImageOperator_execute
        (image_env\<lparr>image_save := Some (Other_Exception ''cannot write mode CMYK as PNG'')\<rparr>)
        example_context empty_world) = Returned {''FINISHED''} \<and>
   snd (PastePureRefImageOperator_execute interrupted_env example_context empty_world) =
     Raised (Non_Exception ''KeyboardInterrupt'') \<and>
   Non_Exception ''KeyboardInterrupt'' \<in> set (env_raises interrupted_env)"
  using paste_execute_outcome[where t = paste_image_try and f = PastePureRefImageOperator_execute
      and e = image_env and ctx = example_context and w = empty_world]
    paste_execute_outcome[where t = paste_image_try and f = PastePureRefImageOperator_execute
      and e = "image_env\<lparr>image_save := Some (Other_Exception ''cannot write mode CMYK as PNG'')\<rparr>"
      and ctx = example_context and w = empty_world
      and x = "Other_Exception ''cannot write mode CMYK as PNG''"]
    paste_execute_outcome[where t = paste_image_try and f = PastePureRefImageOperator_execute
      and e = interrupted_env and ctx = example_context and w = empty_world
      and x = "Non_Exception ''KeyboardInterrupt''"]
  by (simp add: paste_operators_def env_raises_def image_env_def interrupted_env_def
      paste_image_try_def save_def)

subsection \<open>The created object and the objects that were there\<close>





text \<open>
  C10. After a successful paste by either operator there is one more object; its
  display type is \<open>IMAGE\<close>, its scale is (2, 2, 1), it is linked into the context's
  collection, it is selected, and it is the active object.
\<close>

theorem pasted_reference_invariant:
  assumes "(t, f) \<in> set paste_operators"
    and "reported_levels w (fst (f e ctx w)) = [''INFO'']"
  shows "length (objects (fst (f e ctx w))) = Suc (length (objects w)) \<and>
    empty_display_type (objects (fst (f e ctx w)) ! length (objects w)) = ''IMAGE'' \<and>
    scale (objects (fst (f e ctx w)) ! length (objects w)) = (2, 2, 1) \<and>
    length (objects w) \<in> set (collection_objects (fst (f e ctx w)) (collection ctx)) \<and>
    selected (objects (fst (f e ctx w)) ! length (objects w)) \<and>
    active_object (fst (f e ctx w)) = Some (length (objects w))"
  using assms(1)
proof (cases rule: paste_operators_cases)
  case 1
  from assms(2) show ?thesis unfolding 1
    by (rule paste_image_pasted) (simp add: world_fields setter_defs)
next
  case 2
  from assms(2) show ?thesis unfolding 2
    by (rule paste_from_cursor_pasted) (simp add: world_fields setter_defs)
qed

theorem pasted_reference_invariant_witness:
  "reported_levels empty_world
     (fst (PastePureRefFromCursorOperator_execute image_env example_context empty_world)) = [''INFO''] \<and>
   objects (fst (PastePureRefFromCursorOperator_execute image_env example_context empty_world)) =
     [\<lparr>object_name = ''clipboard_image.png'', empty_display_type = ''IMAGE'', data = Some 0,
       location = (7, 8, 9), rotation_euler = To_euler4 example_view_inverted,
       scale = (2, 2, 1), selected = True\<rparr>] \<and>
   collection_objects
     (fst (PastePureRefFromCursorOperator_execute image_env example_context empty_world))
     ''Collection'' = [0] \<and>
   active_object (fst (PastePureRefFromCursorOperator_execute image_env example_context empty_world)) = Some 0"
  using pasted_reference_invariant[of paste_from_cursor_try PastePureRefFromCursorOperator_execute
      empty_world image_env example_context]
  by (simp add: example_levels paste_operators_def)
     (simp add: paste_from_cursor_example example_fields)

end
